theory Spec2Isabelle
  imports Complex_Main "HOL-Library.Word"
begin

section \<open>Common JavaScript values\<close>

text \<open>
  A value thrown by JavaScript code.  The services only ever look at
  \<^verbatim>\<open>error instanceof Error ? error.message : 'Unknown error'\<close>, so a thrown value
  is either an \<^verbatim>\<open>Error\<close> carrying its message or something else.
\<close>

datatype js_error = Error string | NonError

fun message_or_unknown :: "js_error \<Rightarrow> string" where
  "message_or_unknown (Error m) = m"
| "message_or_unknown NonError = ''Unknown error''"

text \<open>
  \<^verbatim>\<open>Promise.all([a, b])\<close> on two promises that have both been started: it
  fulfils with both values, or rejects with the reason of the promise that rejects
  first.  Which of two rejections comes first is a matter of timing and is a parameter.
\<close>

definition promise_all2 ::
  "bool \<Rightarrow> js_error + 'a \<Rightarrow> js_error + 'b \<Rightarrow> js_error + ('a \<times> 'b)" where
  "promise_all2 secondRejectsFirst a b =
     (case a of
        Inr va \<Rightarrow> (case b of Inr vb \<Rightarrow> Inr (va, vb) | Inl eb \<Rightarrow> Inl eb)
      | Inl ea \<Rightarrow> (case b of Inr vb \<Rightarrow> Inl ea
                              | Inl eb \<Rightarrow> Inl (if secondRejectsFirst then eb else ea)))"

section \<open>The segmentation service (services/sam2Service.ts)\<close>

subsection \<open>Data\<close>

text \<open>\<^verbatim>\<open>label: 1 | 0\<close>: \<open>Positive\<close> is the literal 1, \<open>Negative\<close> the literal 0.\<close>

datatype point_label = Positive | Negative

text \<open>
  \<^verbatim>\<open>SAM2Point\<close>.  The coordinate fields \<^verbatim>\<open>x\<close> and \<^verbatim>\<open>y\<close> are called
  \<open>pt_x\<close> and \<open>pt_y\<close> here.  JavaScript numbers are modelled as real numbers.
\<close>

record SAM2Point =
  pt_x :: real
  pt_y :: real
  label :: point_label

text \<open>
  \<^verbatim>\<open>SAM2Mask\<close>: \<open>data\<close> is a \<^verbatim>\<open>Uint8Array\<close>.  The interface declares
  \<^verbatim>\<open>width\<close> and \<^verbatim>\<open>height\<close> numbers, but \<^verbatim>\<open>processMasks\<close> stores what it
  destructured from the dimensions of the tensor under the cast \<^verbatim>\<open>as number\<close>, which
  is \<^verbatim>\<open>undefined\<close> for a missing dimension: \<open>None\<close> is \<^verbatim>\<open>undefined\<close>.
\<close>

record SAM2Mask =
  data :: "8 word list"
  width :: "nat option"
  height :: "nat option"

record SAM2Result =
  masks :: "SAM2Mask list"
  scores :: "real list"
  processingTime :: real

datatype model_size = Tiny | Small | Base | Large

record SAM2Config =
  modelSize :: model_size
  useWebGPU :: bool
  multimaskOutput :: bool

text \<open>\<^verbatim>\<open>Partial<SAM2Config>\<close>: every key may be absent.\<close>

record PartialSAM2Config =
  p_modelSize :: "model_size option"
  p_useWebGPU :: "bool option"
  p_multimaskOutput :: "bool option"

text \<open>The browser's \<^verbatim>\<open>ImageData\<close>: RGBA bytes, row by row.\<close>

record ImageData =
  img_width :: nat
  img_height :: nat
  img_data :: "8 word list"

text \<open>An \<^verbatim>\<open>ort.Tensor\<close> of floats: its dimensions and its flat data.\<close>

record tensor =
  dims :: "nat list"
  tdata :: "real list"

text \<open>
  An \<^verbatim>\<open>ort.InferenceSession\<close>, identified by what it was created from: the model
  URL and the execution providers.
\<close>

datatype session = Session string "string list"

text \<open>The fields of the class \<^verbatim>\<open>SAM2Service\<close>.\<close>

record SAM2Service =
  encoderSession :: "session option"
  decoderSession :: "session option"
  imageEmbeddings :: "tensor option"
  highResFeats0 :: "tensor option"
  highResFeats1 :: "tensor option"
  isModelLoaded :: bool
  isLoading :: bool
  config :: SAM2Config

text \<open>The constructor with its default configuration.\<close>

definition default_config :: SAM2Config where
  "default_config = \<lparr>modelSize = Tiny, useWebGPU = True, multimaskOutput = True\<rparr>"

definition new_SAM2Service :: "SAM2Config \<Rightarrow> SAM2Service" where
  "new_SAM2Service c =
     \<lparr>encoderSession = None, decoderSession = None, imageEmbeddings = None,
      highResFeats0 = None, highResFeats1 = None,
      isModelLoaded = False, isLoading = False, config = c\<rparr>"

subsection \<open>The outside world of \<^verbatim>\<open>initialize\<close>\<close>

text \<open>
  What the service does to the outside world, in order: the HEAD request of
  \<^verbatim>\<open>checkModelsAvailable\<close>, the WebGPU adapter request, the creation of an
  inference session, a run of the encoder, a run of the decoder.
\<close>

datatype io =
  FetchHead string
| RequestAdapter
| CreateSession string "string list"
| RunEncoder
| RunDecoder

text \<open>\<^verbatim>\<open>navigator.gpu?.requestAdapter()\<close>: an adapter, nothing, or an exception.\<close>

datatype adapter_probe = AdapterFound | AdapterMissing | AdapterThrows

text \<open>
  The answers of the outside world during one \<^verbatim>\<open>initialize\<close>:
  \<open>headRequest url\<close> is \<open>Some ok\<close> when \<^verbatim>\<open>fetch\<close> resolves with
  \<^verbatim>\<open>response.ok = ok\<close> and \<open>None\<close> when it throws; \<open>createSession\<close> is
  \<^verbatim>\<open>ort.InferenceSession.create\<close>.
\<close>

record init_env =
  headRequest :: "string \<Rightarrow> bool option"
  gpuInNavigator :: bool
  requestAdapter :: adapter_probe
  createSession :: "string \<Rightarrow> string list \<Rightarrow> js_error + session"
  decoderRejectsFirst :: bool

datatype model_kind = Encoder | Decoder

fun model_size_name :: "model_size \<Rightarrow> string" where
  "model_size_name Tiny = ''tiny''"
| "model_size_name Small = ''small''"
| "model_size_name Base = ''base''"
| "model_size_name Large = ''large''"

fun model_kind_name :: "model_kind \<Rightarrow> string" where
  "model_kind_name Encoder = ''encoder''"
| "model_kind_name Decoder = ''decoder''"

definition getModelUrl :: "SAM2Service \<Rightarrow> model_kind \<Rightarrow> string" where
  "getModelUrl s kind =
     (let baseUrl = ''/models/sam2'';
          modelName = ''sam2_hiera_'' @ model_size_name (modelSize (config s)) @ ''_''
                        @ model_kind_name kind @ ''.onnx''
      in baseUrl @ ''/'' @ modelName)"

definition checkModelsAvailable :: "init_env \<Rightarrow> SAM2Service \<Rightarrow> bool \<times> io list" where
  "checkModelsAvailable env s =
     (let encoderUrl = getModelUrl s Encoder
      in (case headRequest env encoderUrl of
            Some ok \<Rightarrow> (ok, [FetchHead encoderUrl])
          | None \<Rightarrow> (False, [FetchHead encoderUrl])))"

definition loadEncoderModel ::
  "init_env \<Rightarrow> SAM2Service \<Rightarrow> string list \<Rightarrow> (js_error + session) \<times> io list" where
  "loadEncoderModel env s executionProviders =
     (let encoderUrl = getModelUrl s Encoder
      in (createSession env encoderUrl executionProviders,
          [CreateSession encoderUrl executionProviders]))"

definition loadDecoderModel ::
  "init_env \<Rightarrow> SAM2Service \<Rightarrow> string list \<Rightarrow> (js_error + session) \<times> io list" where
  "loadDecoderModel env s executionProviders =
     (let decoderUrl = getModelUrl s Decoder
      in (createSession env decoderUrl executionProviders,
          [CreateSession decoderUrl executionProviders]))"

text \<open>The choice of execution providers (lines 72 to 91).\<close>

definition chooseExecutionProviders :: "init_env \<Rightarrow> SAM2Service \<Rightarrow> string list \<times> io list" where
  "chooseExecutionProviders env s =
     (if useWebGPU (config s) \<and> gpuInNavigator env then
        (case requestAdapter env of
           AdapterFound \<Rightarrow> ([''webgpu''], [RequestAdapter])
         | AdapterMissing \<Rightarrow> ([''wasm''], [RequestAdapter])
         | AdapterThrows \<Rightarrow> ([''wasm''], [RequestAdapter]))
      else ([''wasm''], []))"

text \<open>
  The \<^verbatim>\<open>try\<close> block of \<^verbatim>\<open>initialize\<close> with its \<^verbatim>\<open>catch\<close>: the result, the
  fields as the block leaves them, and what it did to the outside world.
\<close>

definition initialize_try ::
  "init_env \<Rightarrow> SAM2Service \<Rightarrow> (js_error + unit) \<times> SAM2Service \<times> io list" where
  "initialize_try env s =
     (let (modelsAvailable, io0) = checkModelsAvailable env s
      in if \<not> modelsAvailable then (Inr (), s\<lparr>isModelLoaded := True\<rparr>, io0)
         else
           let (executionProviders, io1) = chooseExecutionProviders env s;
               (enc, io2) = loadEncoderModel env s executionProviders;
               (dec, io3) = loadDecoderModel env s executionProviders
           in (case promise_all2 (decoderRejectsFirst env) enc dec of
                 Inr (encoderSession', decoderSession') \<Rightarrow>
                   (Inr (),
                    s\<lparr>encoderSession := Some encoderSession',
                      decoderSession := Some decoderSession',
                      isModelLoaded := True\<rparr>,
                    io0 @ io1 @ io2 @ io3)
               | Inl e \<Rightarrow>
                   (Inl (Error (''SAM2 initialization failed: '' @ message_or_unknown e)),
                    s, io0 @ io1 @ io2 @ io3)))"

text \<open>
  \<^verbatim>\<open>initialize\<close>: the re-entry guard, the flag, the \<^verbatim>\<open>try\<close> block and the
  \<^verbatim>\<open>finally\<close> clause, which runs on every exit of the block.
\<close>

definition initialize ::
  "init_env \<Rightarrow> SAM2Service \<Rightarrow> (js_error + unit) \<times> SAM2Service \<times> io list" where
  "initialize env s =
     (if isModelLoaded s \<or> isLoading s then (Inr (), s, [])
      else
        let s1 = s\<lparr>isLoading := True\<rparr>;
            (r, s2, ios) = initialize_try env s1
        in (r, s2\<lparr>isLoading := False\<rparr>, ios))"

definition isReady :: "SAM2Service \<Rightarrow> bool" where
  "isReady s = isModelLoaded s"

definition getConfig :: "SAM2Service \<Rightarrow> SAM2Config" where
  "getConfig s = config s"

text \<open>
  The object spread \<^verbatim>\<open>{ ...this.config, ...newConfig }\<close>: a key present in
  \<open>newConfig\<close> wins, an absent key keeps the old value.
\<close>

definition spread_config :: "SAM2Config \<Rightarrow> PartialSAM2Config \<Rightarrow> SAM2Config" where
  "spread_config old new =
     \<lparr>modelSize = (case p_modelSize new of Some v \<Rightarrow> v | None \<Rightarrow> modelSize old),
      useWebGPU = (case p_useWebGPU new of Some v \<Rightarrow> v | None \<Rightarrow> useWebGPU old),
      multimaskOutput =
        (case p_multimaskOutput new of Some v \<Rightarrow> v | None \<Rightarrow> multimaskOutput old)\<rparr>"

definition updateConfig :: "PartialSAM2Config \<Rightarrow> SAM2Service \<Rightarrow> SAM2Service" where
  "updateConfig newConfig s =
     (if isModelLoaded s then s
      else s\<lparr>config := spread_config (config s) newConfig\<rparr>)"

subsection \<open>Preprocessing\<close>

definition targetSize :: nat where
  "targetSize = 1024"

text \<open>
  One round of the conversion loop of \<^verbatim>\<open>preprocessImage\<close>: the three writes for
  pixel \<open>i\<close>.  A byte read from the \<^verbatim>\<open>Uint8ClampedArray\<close> becomes a number; the
  rounding of the quotient to a 32-bit float on its way into the \<^verbatim>\<open>Float32Array\<close>
  is not modelled, the entries are the exact quotients.
\<close>

definition preprocess_step :: "8 word list \<Rightarrow> nat \<Rightarrow> real list \<Rightarrow> real list" where
  "preprocess_step pixels i input =
     (let pixelIndex = i * 4
      in input
           [i := real (unat (pixels ! pixelIndex)) / 255,
            targetSize * targetSize + i := real (unat (pixels ! (pixelIndex + 1))) / 255,
            2 * targetSize * targetSize + i := real (unat (pixels ! (pixelIndex + 2))) / 255])"

text \<open>
  \<^verbatim>\<open>preprocessImage\<close>.  The two canvases, \<^verbatim>\<open>putImageData\<close>,
  \<^verbatim>\<open>drawImage(tempCanvas, 0, 0, 1024, 1024)\<close> and
  \<^verbatim>\<open>getImageData(0, 0, 1024, 1024)\<close> are the browser's: \<open>resize\<close> stands for them
  and returns the RGBA bytes of the resized image.
\<close>

definition preprocessImage :: "(ImageData \<Rightarrow> 8 word list) \<Rightarrow> ImageData \<Rightarrow> real list" where
  "preprocessImage resize imageData =
     (let pixels = resize imageData;
          input = replicate (3 * targetSize * targetSize) 0
      in fold (preprocess_step pixels) [0..<targetSize * targetSize] input)"

subsection \<open>Encoding\<close>

record encoder_results =
  image_embed :: "tensor option"
  high_res_feats_0 :: "tensor option"
  high_res_feats_1 :: "tensor option"

record encode_env =
  resizeTo1024 :: "ImageData \<Rightarrow> 8 word list"
  encoderRun :: "session \<Rightarrow> tensor \<Rightarrow> js_error + encoder_results"

definition encodeImage ::
  "encode_env \<Rightarrow> ImageData \<Rightarrow> SAM2Service \<Rightarrow> (js_error + unit) \<times> SAM2Service \<times> io list" where
  "encodeImage env imageData s =
     (if \<not> isModelLoaded s then
        (Inl (Error ''SAM2 not initialized - call initialize() first''), s, [])
      else
        (case encoderSession s of
           None \<Rightarrow> (Inr (), s, [])
         | Some sess \<Rightarrow>
             (let processedImage = preprocessImage (resizeTo1024 env) imageData;
                  imageTensor = \<lparr>dims = [1, 3, 1024, 1024], tdata = processedImage\<rparr>
              in (case encoderRun env sess imageTensor of
                    Inr encoderResults \<Rightarrow>
                      (Inr (),
                       s\<lparr>imageEmbeddings := image_embed encoderResults,
                         highResFeats0 := high_res_feats_0 encoderResults,
                         highResFeats1 := high_res_feats_1 encoderResults\<rparr>,
                       [RunEncoder])
                  | Inl e \<Rightarrow>
                      (Inl (Error (''Image encoding failed: '' @ message_or_unknown e)),
                       s, [RunEncoder])))))"

subsection \<open>The demo segmentation\<close>

text \<open>
  \<^verbatim>\<open>Math.random()\<close> is a source of numbers: \<open>rnd k\<close> is the value of the
  \<open>k\<close>-th call.  Every function that draws numbers takes the index of the next
  call and returns the index after its last call.
\<close>

type_synonym random_source = "nat \<Rightarrow> real"

text \<open>
  The body of the two pixel loops for the pixel \<open>(x, y)\<close>; the counter
  \<^verbatim>\<open>maskedPixels\<close> is only logged and is left out.
\<close>

definition demo_pixel ::
  "random_source \<Rightarrow> nat \<Rightarrow> int \<Rightarrow> int \<Rightarrow> real \<Rightarrow> nat \<Rightarrow> nat
     \<Rightarrow> 8 word list \<times> nat \<Rightarrow> 8 word list \<times> nat" where
  "demo_pixel rnd w centerX centerY radius row col st =
     (let (mask, k) = st;
          distance = sqrt (real_of_int ((int col - centerX) ^ 2 + (int row - centerY) ^ 2))
      in if distance < radius then
           (let noise = rnd k * 0.3
            in if distance / radius + noise < 1
               then (mask[row * w + col := 255], Suc k)
               else (mask, Suc k))
         else (mask, k))"

definition demo_fill ::
  "random_source \<Rightarrow> nat \<Rightarrow> nat \<Rightarrow> int \<Rightarrow> int \<Rightarrow> real
     \<Rightarrow> 8 word list \<times> nat \<Rightarrow> 8 word list \<times> nat" where
  "demo_fill rnd w h centerX centerY radius st =
     fold (\<lambda>row. fold (demo_pixel rnd w centerX centerY radius row) [0..<w]) [0..<h] st"

text \<open>The callback of \<^verbatim>\<open>points.forEach\<close>.\<close>

definition demo_point ::
  "random_source \<Rightarrow> ImageData \<Rightarrow> SAM2Point
     \<Rightarrow> SAM2Mask list \<times> real list \<times> nat \<Rightarrow> SAM2Mask list \<times> real list \<times> nat" where
  "demo_point rnd imageData point st =
     (let (ms, ss, k) = st
      in if label point = Positive then
           (let maskSize = 100 + rnd k * 50;
                mask = replicate (img_width imageData * img_height imageData) 0;
                centerX = \<lfloor>pt_x point\<rfloor>;
                centerY = \<lfloor>pt_y point\<rfloor>;
                radius = maskSize / 2;
                (mask', k') =
                  demo_fill rnd (img_width imageData) (img_height imageData)
                    centerX centerY radius (mask, Suc k);
                score = 0.7 + rnd k' * 0.25
            in (ms @ [\<lparr>data = mask', width = Some (img_width imageData),
                        height = Some (img_height imageData)\<rparr>],
                ss @ [score], Suc k'))
         else (ms, ss, k))"

definition createDemoSegmentation ::
  "random_source \<Rightarrow> SAM2Point list \<Rightarrow> ImageData \<Rightarrow> SAM2Result" where
  "createDemoSegmentation rnd points imageData =
     (let (ms, ss, k) = fold (demo_point rnd imageData) points ([], [], 0);
          time = 50 + rnd k * 100
      in \<lparr>masks = ms, scores = ss, processingTime = time\<rparr>)"

subsection \<open>Decoding\<close>

text \<open>
  The thresholding loop of \<^verbatim>\<open>processMasks\<close>: \<open>binaryMask[j]\<close> is written for
  every \<open>j\<close> below the length of \<open>maskValues\<close>.
\<close>

definition binarize :: "real list \<Rightarrow> 8 word list" where
  "binarize maskValues =
     fold (\<lambda>j binaryMask. binaryMask[j := (if maskValues ! j > 0 then 255 else 0)])
       [0..<length maskValues] (replicate (length maskValues) 0)"


text \<open>
  Array destructuring \<^verbatim>\<open>const [batch, numMasks, height, width] = dims\<close>: the
  entry at a position, \<^verbatim>\<open>undefined\<close> beyond the end of the array.
\<close>

definition dim_at :: "nat list \<Rightarrow> nat \<Rightarrow> nat option" where
  "dim_at ds i = (if i < length ds then Some (ds ! i) else None)"









section \<open>Strings\<close>

text \<open>
  \<^verbatim>\<open>String.prototype.includes\<close>.  A string is its list of bytes; for the ASCII
  search strings of this program a match on bytes is a match on characters.
\<close>

fun startsWith :: "string \<Rightarrow> string \<Rightarrow> bool" where
  "startsWith s [] = True"
| "startsWith [] (d # ds) = False"
| "startsWith (c # cs) (d # ds) = (c = d \<and> startsWith cs ds)"

fun str_includes :: "string \<Rightarrow> string \<Rightarrow> bool" where
  "str_includes [] sub = (sub = [])"
| "str_includes (c # cs) sub = (startsWith (c # cs) sub \<or> str_includes cs sub)"

text \<open>\<^verbatim>\<open>toLowerCase\<close> on ASCII text: the letters A to Z move to a to z.\<close>

definition lower_char :: "char \<Rightarrow> char" where
  "lower_char c =
     (let n = (of_char c :: nat)
      in if 65 \<le> n \<and> n \<le> 90 then char_of (n + 32) else c)"

definition toLowerCase :: "string \<Rightarrow> string" where
  "toLowerCase s = map lower_char s"

section \<open>The detection route (POST /api/detect)\<close>

text \<open>
  \<^verbatim>\<open>WatchTarget\<close>, as the camera component and the route share it.
\<close>

record WatchTarget =
  description :: string
  referenceImage :: "string option"
  confidence :: real

text \<open>A JSON value as the route inspects it; objects and arrays are not looked into.\<close>

datatype json = JUndefined | JNull | JBool bool | JNum real | JStr string | JObject

fun truthy :: "json \<Rightarrow> bool" where
  "truthy JUndefined = False"
| "truthy JNull = False"
| "truthy (JBool b) = b"
| "truthy (JNum r) = (r \<noteq> 0)"
| "truthy (JStr s) = (s \<noteq> [])"
| "truthy JObject = True"

text \<open>The object the vision model answered with, field by field.\<close>

record model_result =
  mr_detected :: json
  mr_confidence :: json
  mr_reasoning :: json
  mr_urgency :: json
  mr_recommended_action :: json

text \<open>
  \<^verbatim>\<open>JSON.parse\<close>: it throws, or it yields an object (an array is an object with
  none of the fields), or it yields a primitive or \<^verbatim>\<open>null\<close>.
\<close>

datatype parsed = ParseThrows | ParsedObject model_result | ParsedPrimitive

text \<open>
  The result after the two \<^verbatim>\<open>typeof\<close> checks: \<^verbatim>\<open>detected\<close> is a boolean and
  \<^verbatim>\<open>confidence\<close> a number from then on.
\<close>

record checked_result =
  res_detected :: bool
  res_confidence :: real
  res_reasoning :: json
  res_urgency :: json
  res_recommended_action :: json

record final_result =
  fr_detected :: bool
  fr_confidence :: real
  fr_reasoning :: json
  fr_urgency :: json
  fr_recommended_action :: json
  originalDetected :: bool
  thresholdApplied :: bool

datatype http_response = OkResponse final_result | ErrorResponse nat

text \<open>
  \<^verbatim>\<open>createComplexPrompt\<close> chooses between two templates; the template and the
  values put into it stand for the text.
\<close>

datatype prompt = MultiFramePrompt nat string real | SingleFramePrompt string

record motion_data =
  hasMotion :: bool
  changePercent :: real

record detect_request =
  req_image :: "string option"
  req_frames :: "string list"
  req_target :: "WatchTarget option"
  req_isComplexAction :: bool
  req_motionData :: motion_data
  req_prompt :: prompt

text \<open>
  The outside world of the route: the configured API key, the outcome of the chat
  completion (a rejection, or the content of the first choice, which may be missing)
  and \<^verbatim>\<open>JSON.parse\<close>.
\<close>

record route_env =
  apiKey :: "string option"
  completion :: "js_error + string option"
  jsonParse :: "string \<Rightarrow> parsed"

text \<open>
  \<^verbatim>\<open>content.match(/\{[\s\S]*\}/)\<close>: from the first opening brace to the last
  closing brace after it.
\<close>

definition jsonMatch :: "string \<Rightarrow> string option" where
  "jsonMatch content =
     (let fromBrace = dropWhile (\<lambda>c. c \<noteq> CHR ''{'') content
      in if fromBrace \<noteq> [] \<and> CHR ''}'' \<in> set (tl fromBrace)
         then Some (rev (dropWhile (\<lambda>c. c \<noteq> CHR ''}'') (rev fromBrace)))
         else None)"

text \<open>The fallback when parsing throws (lines 265 to 279).\<close>

definition fallback_result :: "bool \<Rightarrow> string \<Rightarrow> model_result" where
  "fallback_result complex content =
     (let lc = toLowerCase content;
          detected = (str_includes lc ''true'' \<or> str_includes lc ''detected'' \<or> str_includes lc ''yes''
                      \<or> str_includes lc ''falling'' \<or> str_includes lc ''emergency''
                      \<or> str_includes lc ''weapon'')
      in \<lparr>mr_detected = JBool detected,
          mr_confidence = JNum (if detected then 0.6 else 0.1),
          mr_reasoning = JStr ''Response parsing failed, using enhanced fallback detection'',
          mr_urgency = JStr (if detected \<and> complex then ''medium'' else ''low''),
          mr_recommended_action = JUndefined\<rparr>)"

text \<open>The two \<^verbatim>\<open>typeof\<close> checks (lines 283 to 290).\<close>

definition validate_result :: "model_result \<Rightarrow> checked_result" where
  "validate_result r =
     \<lparr>res_detected = (case mr_detected r of JBool b \<Rightarrow> b | _ \<Rightarrow> False),
      res_confidence = (case mr_confidence r of JNum c \<Rightarrow> c | _ \<Rightarrow> 0.1),
      res_reasoning = mr_reasoning r,
      res_urgency = mr_urgency r,
      res_recommended_action = mr_recommended_action r\<rparr>"

text \<open>The urgency from the keywords of the description (lines 293 to 310).\<close>

definition assign_urgency :: "WatchTarget \<Rightarrow> checked_result \<Rightarrow> checked_result" where
  "assign_urgency target r =
     (if \<not> truthy (res_urgency r) \<and> res_detected r then
        (let d = toLowerCase (description target)
         in if str_includes d ''falling'' \<or> str_includes d ''weapon'' \<or> str_includes d ''breaking''
               \<or> str_includes d ''emergency'' \<or> str_includes d ''collapsed''
               \<or> str_includes d ''unconscious''
            then r\<lparr>res_urgency := JStr ''high''\<rparr>
            else if str_includes d ''suspicious'' \<or> str_includes d ''distress''
                    \<or> str_includes d ''climbing''
            then r\<lparr>res_urgency := JStr ''medium''\<rparr>
            else r\<lparr>res_urgency := JStr ''low''\<rparr>)
      else r)"

text \<open>The recommended action of a high-urgency detection (lines 313 to 327).\<close>

definition assign_action :: "WatchTarget \<Rightarrow> checked_result \<Rightarrow> checked_result" where
  "assign_action target r =
     (if \<not> truthy (res_recommended_action r) \<and> res_detected r
         \<and> res_urgency r = JStr ''high'' then
        (let d = toLowerCase (description target)
         in if str_includes d ''falling'' \<or> str_includes d ''collapsed'' then
              r\<lparr>res_recommended_action :=
                  JStr ''Check person immediately, call emergency services if needed''\<rparr>
            else if str_includes d ''weapon'' then
              r\<lparr>res_recommended_action :=
                  JStr ''Alert security immediately, do not approach''\<rparr>
            else if str_includes d ''breaking'' then
              r\<lparr>res_recommended_action :=
                  JStr ''Secure area, check for intruders, contact authorities''\<rparr>
            else if str_includes d ''emergency'' then
              r\<lparr>res_recommended_action :=
                  JStr ''Investigate immediately, call emergency services''\<rparr>
            else r\<lparr>res_recommended_action := JStr ''Investigate situation immediately''\<rparr>)
      else r)"

text \<open>The confidence threshold and the final result (lines 329 to 355).\<close>

definition apply_threshold :: "WatchTarget \<Rightarrow> checked_result \<Rightarrow> final_result" where
  "apply_threshold target r =
     (let original = res_detected r;
          r' = (if res_confidence r < confidence target
                then r\<lparr>res_detected := False\<rparr> else r)
      in \<lparr>fr_detected = res_detected r',
          fr_confidence = res_confidence r',
          fr_reasoning = (if truthy (res_reasoning r') then res_reasoning r'
                          else JStr ''No reasoning provided''),
          fr_urgency = (if truthy (res_urgency r') then res_urgency r' else JStr ''low''),
          fr_recommended_action = res_recommended_action r',
          originalDetected = original,
          thresholdApplied = (original \<noteq> res_detected r')\<rparr>)"

text \<open>
  From the content of the completion to the response (lines 253 to 358).  A parse
  that yields a primitive makes the first assignment to a field throw, which the
  outer \<^verbatim>\<open>catch\<close> answers with status 500.
\<close>

definition interpret_content ::
  "route_env \<Rightarrow> WatchTarget \<Rightarrow> bool \<Rightarrow> string \<Rightarrow> http_response" where
  "interpret_content env target complex content =
     (let jsonString = (case jsonMatch content of Some m \<Rightarrow> m | None \<Rightarrow> content)
      in (case jsonParse env jsonString of
            ParsedPrimitive \<Rightarrow> ErrorResponse 500
          | ParsedObject r \<Rightarrow>
              OkResponse
                (apply_threshold target
                   (assign_action target (assign_urgency target (validate_result r))))
          | ParseThrows \<Rightarrow>
              OkResponse
                (apply_threshold target
                   (assign_action target
                      (assign_urgency target
                         (validate_result (fallback_result complex content)))))))"

text \<open>
  The handler.  The message list sent to the vision model is built from the request
  and does not come back; only the outcome of the call does.
\<close>

definition detect_route :: "route_env \<Rightarrow> detect_request \<Rightarrow> http_response" where
  "detect_route env req =
     (case (req_image req, req_target req) of
        (Some img, Some target) \<Rightarrow>
          (if img = [] then ErrorResponse 400
           else
             (case apiKey env of
                None \<Rightarrow> ErrorResponse 500
              | Some k \<Rightarrow>
                  if k = [] then ErrorResponse 500
                  else if \<not> startsWith k ''sk-'' then ErrorResponse 500
                  else
                    (case completion env of
                       Inl e \<Rightarrow> ErrorResponse 500
                     | Inr None \<Rightarrow> ErrorResponse 500
                     | Inr (Some content) \<Rightarrow>
                         if content = [] then ErrorResponse 500
                         else interpret_content env target (req_isComplexAction req) content)))
      | _ \<Rightarrow> ErrorResponse 400)"

section \<open>The camera component (CameraFeed)\<close>

subsection \<open>State\<close>

text \<open>The \<^verbatim>\<open>useState\<close> cells of the component that the capture reads or writes.\<close>

record CameraFeed =
  lastCapture :: "real option"
  processingFrame :: bool
  lastCapturedImage :: "string option"
  motionDetection :: bool
  lastFrame :: "string option"
  frameBuffer :: "string list"
  motionThreshold :: real

definition initial_CameraFeed :: CameraFeed where
  "initial_CameraFeed =
     \<lparr>lastCapture = None, processingFrame = False, lastCapturedImage = None,
      motionDetection = True, lastFrame = None, frameBuffer = [],
      motionThreshold = 0.15\<rparr>"

text \<open>
  \<^verbatim>\<open>DetectionAlert\<close> as \<^verbatim>\<open>onDetection\<close> receives it.  The message is one of two
  texts; the one of a detection is built from the description and the confidence.
\<close>

datatype alert_message = DetectedMessage string real | NoDetection

record DetectionAlert =
  alert_time :: real
  alert_detected :: bool
  alert_confidence :: real
  alert_image :: string
  alert_message :: alert_message

text \<open>
  What becomes of a frame in \<^verbatim>\<open>detectMotion\<close>: its image loads, is drawn on the
  160 by 120 canvas and read back as RGBA bytes; or it loads and drawing or reading
  throws; or it never loads.  The promise that waits for an image resolves in
  \<^verbatim>\<open>img.onload\<close> and has no \<^verbatim>\<open>onerror\<close>, so it stays pending for an image
  that never loads.
\<close>

datatype rendering = Rendered "8 word list" | DrawThrows | NeverLoads

text \<open>
  The outside world of one capture: the frame the active input yields (\<open>None\<close> when
  there is none), the clock, whether \<^verbatim>\<open>canvas.getContext('2d')\<close> yields a context,
  and what becomes of each frame.  Frames are opaque, so the second drawing covers the
  first.
\<close>

record capture_env =
  grabFrame :: "string option"
  now :: real
  context2d :: bool
  render :: "string \<Rightarrow> rendering"

subsection \<open>Motion detection\<close>

text \<open>The summed channel difference of the pixel that starts at byte \<open>i\<close>.\<close>

definition pixel_diff :: "8 word list \<Rightarrow> 8 word list \<Rightarrow> nat \<Rightarrow> int" where
  "pixel_diff data1 data2 i =
     \<bar>uint (data1 ! i) - uint (data2 ! i)\<bar>
     + \<bar>uint (data1 ! (i + 1)) - uint (data2 ! (i + 1))\<bar>
     + \<bar>uint (data1 ! (i + 2)) - uint (data2 ! (i + 2))\<bar>"

text \<open>The counting loop: \<open>i\<close> runs over 0, 4, 8, ... below the length of \<open>data1\<close>.\<close>

definition count_diff :: "8 word list \<Rightarrow> 8 word list \<Rightarrow> nat" where
  "count_diff data1 data2 =
     fold (\<lambda>i diffPixels. if pixel_diff data1 data2 i > 30 then diffPixels + 1 else diffPixels)
       (map (\<lambda>k. 4 * k) [0..<(length data1 + 3) div 4]) 0"

text \<open>
  \<^verbatim>\<open>detectMotion\<close>.  The result is \<open>None\<close> when the returned promise never
  settles, which happens when one of the two images never loads: the function waits for
  both before it draws.  Every exception after that is caught and answered with motion.
\<close>

definition detectMotion :: "capture_env \<Rightarrow> CameraFeed \<Rightarrow> string \<Rightarrow> motion_data option" where
  "detectMotion env st currentFrame =
     (case lastFrame st of
        None \<Rightarrow> Some \<lparr>hasMotion = True, changePercent = 100\<rparr>
      | Some lf \<Rightarrow>
          if \<not> motionDetection st then Some \<lparr>hasMotion = True, changePercent = 100\<rparr>
          else if \<not> context2d env then Some \<lparr>hasMotion = True, changePercent = 100\<rparr>
          else if render env lf = NeverLoads \<or> render env currentFrame = NeverLoads then None
          else
            (case (render env lf, render env currentFrame) of
               (Rendered data1, Rendered data2) \<Rightarrow>
                 (let diffPixels = count_diff data1 data2;
                      totalPixels = real (length data1) / 4;
                      percent = (real diffPixels / totalPixels) * 100;
                      motion = (percent > motionThreshold st * 100)
                  in Some \<lparr>hasMotion = motion, changePercent = percent\<rparr>)
             | _ \<Rightarrow> Some \<lparr>hasMotion = True, changePercent = 100\<rparr>))"

subsection \<open>One capture\<close>

definition isComplexAction :: "string \<Rightarrow> bool" where
  "isComplexAction d =
     (str_includes d ''falling'' \<or> str_includes d ''breaking'' \<or> str_includes d ''distress''
      \<or> str_includes d ''suspicious'' \<or> str_includes d ''climbing'' \<or> str_includes d ''weapon''
      \<or> str_includes d ''emergency'' \<or> str_includes d ''unconscious'' \<or> str_includes d ''collapsed'')"

definition createComplexPrompt :: "WatchTarget \<Rightarrow> string list \<Rightarrow> prompt" where
  "createComplexPrompt target frames =
     (if isComplexAction (description target) \<and> length frames > 1
      then MultiFramePrompt (length frames) (description target) (confidence target)
      else SingleFramePrompt (description target))"

text \<open>\<^verbatim>\<open>xs.slice(-3)\<close>: the last three elements.\<close>

definition last3 :: "'a list \<Rightarrow> 'a list" where
  "last3 xs = drop (length xs - 3) xs"

text \<open>
  How a call of \<^verbatim>\<open>captureFrame\<close> goes on: it returns before capturing anything,
  it waits for \<^verbatim>\<open>detectMotion\<close> for ever, it skips the detection call for lack of
  motion, it skips it to wait for more frames, or it sends the request and waits for
  the response.
\<close>

datatype capture_outcome =
  NotCaptured
| NeverSettles
| SkippedNoMotion motion_data
| WaitingForFrames
| Dispatched detect_request

text \<open>
  \<^verbatim>\<open>captureFrame\<close> up to the \<^verbatim>\<open>fetch\<close> (lines 217 to 326).  \<^verbatim>\<open>detectMotion\<close>
  catches its own exceptions, so the \<^verbatim>\<open>catch\<close> around its call is never entered.
  When \<^verbatim>\<open>detectMotion\<close> never settles the call stops at its \<^verbatim>\<open>await\<close>, after
  the captured image and the frame buffer have been stored.
\<close>

definition captureFrame_begin ::
  "capture_env \<Rightarrow> WatchTarget option \<Rightarrow> CameraFeed \<Rightarrow> CameraFeed \<times> capture_outcome" where
  "captureFrame_begin env watchTarget st =
     (case watchTarget of
        None \<Rightarrow> (st, NotCaptured)
      | Some target \<Rightarrow>
          if processingFrame st then (st, NotCaptured)
          else
            (case grabFrame env of
               None \<Rightarrow> (st, NotCaptured)
             | Some imageDataUrl \<Rightarrow>
                 (let newFrameBuffer = last3 (frameBuffer st @ [imageDataUrl]);
                      st1 = st\<lparr>lastCapturedImage := Some imageDataUrl,
                               frameBuffer := newFrameBuffer\<rparr>;
                      motion =
                        (if motionDetection st \<and> lastFrame st \<noteq> None
                         then detectMotion env st imageDataUrl
                         else Some \<lparr>hasMotion = True, changePercent = 100\<rparr>)
                  in (case motion of
                        None \<Rightarrow> (st1, NeverSettles)
                      | Some motionData \<Rightarrow>
                          if \<not> hasMotion motionData then
                            (st1\<lparr>lastCapture := Some (now env),
                                 lastFrame := Some imageDataUrl\<rparr>,
                             SkippedNoMotion motionData)
                          else
                            (let st2 = st1\<lparr>processingFrame := True,
                                            lastCapture := Some (now env),
                                            lastFrame := Some imageDataUrl\<rparr>;
                                 complex = isComplexAction (description target)
                             in if complex \<and> length newFrameBuffer < 2 then
                                  (st2\<lparr>processingFrame := False\<rparr>, WaitingForFrames)
                                else
                                  (let frames =
                                         (if complex then newFrameBuffer else [imageDataUrl])
                                   in (st2,
                                       Dispatched
                                         \<lparr>req_image = Some imageDataUrl,
                                          req_frames = frames,
                                          req_target = Some target,
                                          req_isComplexAction = complex,
                                          req_motionData = motionData,
                                          req_prompt =
                                            createComplexPrompt target frames\<rparr>)))))))"

text \<open>
  \<^verbatim>\<open>captureFrame\<close> from the settling of the \<^verbatim>\<open>fetch\<close> (lines 328 to 507): the
  alerts handed to \<^verbatim>\<open>onDetection\<close>, and the \<^verbatim>\<open>finally\<close> clause.  A rejected
  \<^verbatim>\<open>fetch\<close> and a response that is not ok end in the \<^verbatim>\<open>catch\<close> clause, which
  hands nothing to \<^verbatim>\<open>onDetection\<close>.
\<close>

definition captureFrame_finish ::
  "real \<Rightarrow> WatchTarget \<Rightarrow> string \<Rightarrow> js_error + http_response \<Rightarrow> CameraFeed
     \<Rightarrow> CameraFeed \<times> DetectionAlert list" where
  "captureFrame_finish time target imageDataUrl outcome st =
     (case outcome of
        Inr (OkResponse result) \<Rightarrow>
          (st\<lparr>processingFrame := False\<rparr>,
           [\<lparr>alert_time = time,
             alert_detected = fr_detected result,
             alert_confidence = fr_confidence result,
             alert_image = imageDataUrl,
             alert_message =
               (if fr_detected result
                then DetectedMessage (description target) (fr_confidence result)
                else NoDetection)\<rparr>])
      | Inr (ErrorResponse status) \<Rightarrow> (st\<lparr>processingFrame := False\<rparr>, [])
      | Inl e \<Rightarrow> (st\<lparr>processingFrame := False\<rparr>, []))"

subsection \<open>Monitoring\<close>

text \<open>
  The component over time: its state, the props \<^verbatim>\<open>watchTarget\<close> and
  \<^verbatim>\<open>isMonitoring\<close>, whether \<^verbatim>\<open>intervalRef\<close> holds a running interval, the
  detection call in flight (with the target and the frame its continuation closed
  over) and the alerts \<^verbatim>\<open>onDetection\<close> has received, oldest first.
\<close>

record monitor =
  feed :: CameraFeed
  watchTarget :: "WatchTarget option"
  isMonitoring :: bool
  intervalRunning :: bool
  inFlight :: "(WatchTarget \<times> string) option"
  delivered :: "DetectionAlert list"

text \<open>
  What happens to the component: the parent sets \<^verbatim>\<open>isMonitoring\<close>, the interval
  fires, the detection call in flight settles.
\<close>

datatype event =
  SetMonitoring bool
| Tick capture_env
| Settle real "js_error + http_response"

text \<open>
  The effect of lines 510 to 525 runs when \<^verbatim>\<open>isMonitoring\<close> changes: its cleanup
  clears the old interval, its body starts a new one or clears again.  An interval
  that is cleared does not fire.
\<close>

definition monitor_step :: "event \<Rightarrow> monitor \<Rightarrow> monitor" where
  "monitor_step ev m =
     (case ev of
        SetMonitoring b \<Rightarrow>
          m\<lparr>isMonitoring := b, intervalRunning := (b \<and> watchTarget m \<noteq> None)\<rparr>
      | Tick env \<Rightarrow>
          if \<not> intervalRunning m then m
          else
            (case captureFrame_begin env (watchTarget m) (feed m) of
               (st', Dispatched req) \<Rightarrow>
                 (case (req_target req, req_image req) of
                    (Some target, Some img) \<Rightarrow> m\<lparr>feed := st', inFlight := Some (target, img)\<rparr>
                  | _ \<Rightarrow> m\<lparr>feed := st'\<rparr>)
             | (st', _) \<Rightarrow> m\<lparr>feed := st'\<rparr>)
      | Settle time outcome \<Rightarrow>
          (case inFlight m of
             None \<Rightarrow> m
           | Some (target, img) \<Rightarrow>
               (let (st', alerts) = captureFrame_finish time target img outcome (feed m)
                in m\<lparr>feed := st', inFlight := None, delivered := delivered m @ alerts\<rparr>)))"

fun run_events :: "event list \<Rightarrow> monitor \<Rightarrow> monitor" where
  "run_events [] m = m"
| "run_events (ev # evs) m = run_events evs (monitor_step ev m)"

section \<open>Invariants\<close>

text \<open>
  \<^verbatim>\<open>data.length == width * height\<close>, which is false when \<^verbatim>\<open>width\<close> or
  \<^verbatim>\<open>height\<close> is undefined.
\<close>

definition area_matches :: "SAM2Mask \<Rightarrow> bool" where
  "area_matches m =
     (case (width m, height m) of
        (Some w, Some h) \<Rightarrow> length (data m) = w * h
      | _ \<Rightarrow> False)"

text \<open>
  The invariant of a mask in the data model: every byte is 0 or 255 and there is one
  byte per pixel.
\<close>

definition binary_mask :: "SAM2Mask \<Rightarrow> bool" where
  "binary_mask m \<longleftrightarrow> (\<forall>v \<in> set (data m). v = 0 \<or> v = 255) \<and> area_matches m"


text \<open>A byte array of length \<open>n\<close> that holds only 0 and 255.\<close>

definition binary_bytes :: "nat \<Rightarrow> 8 word list \<Rightarrow> bool" where
  "binary_bytes n bs \<longleftrightarrow> length bs = n \<and> (\<forall>v \<in> set bs. v = 0 \<or> v = 255)"

text \<open>
  The invariant of the loop over the points: \<open>n\<close> masks and \<open>n\<close> scores so far,
  every mask binary and of the size of the image, every score satisfying \<open>Q\<close>.
\<close>

definition demo_acc_ok ::
  "(real \<Rightarrow> bool) \<Rightarrow> SAM2Mask list \<times> real list \<times> nat \<Rightarrow> nat \<Rightarrow> bool" where
  "demo_acc_ok Q st n \<longleftrightarrow>
     (case st of (ms, ss, k) \<Rightarrow>
        length ms = n \<and> length ss = n \<and> (\<forall>m \<in> set ms. binary_mask m)
        \<and> (\<forall>sc \<in> set ss. Q sc))"

section \<open>Concrete inputs\<close>

text \<open>
  An outside world in which the model files exist but cannot be loaded, one in which
  they do not exist, a one-pixel image, an encoder environment; cameras looking at a
  still scene and at a scene that changes after the first frame, two watch targets, an
  answer of the vision model with the route around it, and a monitor at rest; a resize
  that yields a white image, a random source that always yields one half, two points,
  an answer of the decoder with the environment and the loaded service around it, and
  the segmentation result that answer leads to; an answer of the decoder with one mask
  and three scores, one whose mask tensor has two dimensions only, and the environment
  in which the decoder gives a chosen answer.
\<close>

definition failing_env :: init_env where
  "failing_env =
     \<lparr>headRequest = (\<lambda>url. Some True), gpuInNavigator = False,
      requestAdapter = AdapterMissing,
      createSession = (\<lambda>url providers. Inl (Error ''model file is malformed'')),
      decoderRejectsFirst = False\<rparr>"

definition absent_env :: init_env where
  "absent_env =
     \<lparr>headRequest = (\<lambda>url. Some False), gpuInNavigator = False,
      requestAdapter = AdapterMissing,
      createSession = (\<lambda>url providers. Inr (Session url providers)),
      decoderRejectsFirst = False\<rparr>"

definition blank_image :: ImageData where
  "blank_image = \<lparr>img_width = 1, img_height = 1, img_data = [0, 0, 0, 255]\<rparr>"

definition idle_encode_env :: encode_env where
  "idle_encode_env =
     \<lparr>resizeTo1024 = (\<lambda>img. replicate (4 * 1024 * 1024) 0),
      encoderRun = (\<lambda>sess t. Inl NonError)\<rparr>"

definition still_env :: "string \<Rightarrow> capture_env" where
  "still_env frame =
     \<lparr>grabFrame = Some frame, now = 0, context2d = True,
      render = (\<lambda>url. Rendered (replicate (4 * 160 * 120) 0))\<rparr>"

definition fall_target :: WatchTarget where
  "fall_target = \<lparr>description = ''person falling down'', referenceImage = None,
                   confidence = 0.7\<rparr>"

definition dog_target :: WatchTarget where
  "dog_target = \<lparr>description = ''dog leaving house'', referenceImage = None,
                  confidence = 0.7\<rparr>"

definition upstream_example :: model_result where
  "upstream_example =
     \<lparr>mr_detected = JBool True, mr_confidence = JNum 0.5,
      mr_reasoning = JStr ''a dog near the door'', mr_urgency = JUndefined,
      mr_recommended_action = JUndefined\<rparr>"

definition example_route_env :: route_env where
  \<open>example_route_env =
     \<lparr>apiKey = Some ''sk-test'',
      completion = Inr (Some ''{"detected": true, "confidence": 0.5}''),
      jsonParse = (\<lambda>text. ParsedObject upstream_example)\<rparr>\<close>

definition example_request :: detect_request where
  "example_request =
     \<lparr>req_image = Some ''frame-1'', req_frames = [''frame-1''],
      req_target = Some dog_target, req_isComplexAction = False,
      req_motionData = \<lparr>hasMotion = True, changePercent = 100\<rparr>,
      req_prompt = SingleFramePrompt ''dog leaving house''\<rparr>"

definition example_final :: final_result where
  "example_final =
     \<lparr>fr_detected = True, fr_confidence = 0.9, fr_reasoning = JStr ''a dog walks out'',
      fr_urgency = JStr ''low'', fr_recommended_action = JUndefined,
      originalDetected = True, thresholdApplied = False\<rparr>"

definition idle_monitor :: monitor where
  "idle_monitor =
     \<lparr>feed = initial_CameraFeed, watchTarget = Some dog_target, isMonitoring = False,
      intervalRunning = False, inFlight = None, delivered = []\<rparr>"

definition moving_env :: "string \<Rightarrow> capture_env" where
  "moving_env frame =
     \<lparr>grabFrame = Some frame, now = 0, context2d = True,
      render = (\<lambda>url. Rendered (replicate (4 * 160 * 120)
                                    (if url = ''frame-1'' then 0 else 255)))\<rparr>"

definition white_resize :: "ImageData \<Rightarrow> 8 word list" where
  "white_resize imageData = replicate (4 * 1024 * 1024) 255"

definition half_random :: random_source where
  "half_random k = 1 / 2"

definition example_points :: "SAM2Point list" where
  "example_points =
     [\<lparr>pt_x = 0.5, pt_y = 0.25, label = Positive\<rparr>,
      \<lparr>pt_x = 3, pt_y = 4, label = Negative\<rparr>]"








section \<open>The life cycle of the service\<close>

lemma getModelUrl_flags [simp]:
  "getModelUrl (s\<lparr>isLoading := b\<rparr>) kind = getModelUrl s kind"
  "getModelUrl (s\<lparr>isModelLoaded := b\<rparr>) kind = getModelUrl s kind"
  by (simp_all add: getModelUrl_def)

lemma chooseExecutionProviders_flags [simp]:
  "chooseExecutionProviders env (s\<lparr>isLoading := b\<rparr>) = chooseExecutionProviders env s"
  by (simp add: chooseExecutionProviders_def)

lemma initialize_absent:
  assumes "\<not> isModelLoaded s" "\<not> isLoading s"
    and "headRequest env (getModelUrl s Encoder) \<noteq> Some True"
  shows "initialize env s = (Inr (), s\<lparr>isModelLoaded := True\<rparr>, [FetchHead (getModelUrl s Encoder)])"
proof -
  have "checkModelsAvailable env (s\<lparr>isLoading := True\<rparr>) = (False, [FetchHead (getModelUrl s Encoder)])"
    using assms(3) by (auto simp: checkModelsAvailable_def Let_def split: option.splits)
  then have "initialize_try env (s\<lparr>isLoading := True\<rparr>)
      = (Inr (), s\<lparr>isLoading := True, isModelLoaded := True\<rparr>, [FetchHead (getModelUrl s Encoder)])"
    by (simp add: initialize_try_def)
  then show ?thesis using assms(1,2) by (simp add: initialize_def)
qed

lemma promise_all2_rejects:
  "isl a \<or> isl b \<Longrightarrow> isl (promise_all2 f a b)"
  by (cases a; cases b) (simp_all add: promise_all2_def)

lemma initialize_load_fails:
  assumes "\<not> isModelLoaded s" "\<not> isLoading s"
    and "headRequest env (getModelUrl s Encoder) = Some True"
    and "isl (createSession env (getModelUrl s Encoder) (fst (chooseExecutionProviders env s)))
         \<or> isl (createSession env (getModelUrl s Decoder) (fst (chooseExecutionProviders env s)))"
  shows "\<exists>m. initialize env s =
           (Inl (Error m), s,
            FetchHead (getModelUrl s Encoder) # snd (chooseExecutionProviders env s)
            @ [CreateSession (getModelUrl s Encoder) (fst (chooseExecutionProviders env s)),
               CreateSession (getModelUrl s Decoder) (fst (chooseExecutionProviders env s))])"
proof -
  let ?s1 = "s\<lparr>isLoading := True\<rparr>"
  let ?p = "fst (chooseExecutionProviders env s)"
  have chk: "checkModelsAvailable env ?s1 = (True, [FetchHead (getModelUrl s Encoder)])"
    using assms(3) by (simp add: checkModelsAvailable_def)
  obtain e where e: "promise_all2 (decoderRejectsFirst env)
       (createSession env (getModelUrl s Encoder) ?p)
       (createSession env (getModelUrl s Decoder) ?p) = Inl e"
    using promise_all2_rejects [OF assms(4), of "decoderRejectsFirst env"]
    by (auto simp: isl_def)
  have "initialize_try env ?s1 =
     (Inl (Error (''SAM2 initialization failed: '' @ message_or_unknown e)), ?s1,
      FetchHead (getModelUrl s Encoder) # snd (chooseExecutionProviders env s)
        @ [CreateSession (getModelUrl s Encoder) ?p, CreateSession (getModelUrl s Decoder) ?p])"
    using e by (cases "chooseExecutionProviders env s")
      (simp add: initialize_try_def chk loadEncoderModel_def loadDecoderModel_def Let_def)
  then show ?thesis using assms(1,2) by (simp add: initialize_def)
qed

lemma initialize_probes:
  assumes "\<not> isModelLoaded s" "\<not> isLoading s"
  shows "\<exists>rest. snd (snd (initialize env s)) = FetchHead (getModelUrl s Encoder) # rest"
  using assms
  by (auto simp: initialize_def initialize_try_def checkModelsAvailable_def Let_def
      split: prod.splits option.splits sum.splits)

text \<open>
  C1, as the code has it.  When the model files are reachable and loading the encoder or
  the decoder throws, \<^verbatim>\<open>initialize\<close> rejects and the \<^verbatim>\<open>finally\<close> clause
  clears \<^verbatim>\<open>isLoading\<close>: the service is left exactly as it was before the call,
  neither loading nor loaded.  The next \<^verbatim>\<open>initialize\<close> passes the re-entry guard:
  it probes the model files again, and in the same outside world it attempts the same
  loads again.
\<close>

theorem initialize_failure_resets:
  assumes "\<not> isModelLoaded s" "\<not> isLoading s"
    and "headRequest env (getModelUrl s Encoder) = Some True"
    and "isl (createSession env (getModelUrl s Encoder) (fst (chooseExecutionProviders env s)))
         \<or> isl (createSession env (getModelUrl s Decoder) (fst (chooseExecutionProviders env s)))"
  shows "isl (fst (initialize env s))
       \<and> fst (snd (initialize env s)) = s
       \<and> \<not> isLoading (fst (snd (initialize env s)))
       \<and> \<not> isModelLoaded (fst (snd (initialize env s)))
       \<and> initialize env (fst (snd (initialize env s))) = initialize env s
       \<and> CreateSession (getModelUrl s Encoder) (fst (chooseExecutionProviders env s))
           \<in> set (snd (snd (initialize env (fst (snd (initialize env s))))))
       \<and> hd (snd (snd (initialize env' (fst (snd (initialize env s))))))
           = FetchHead (getModelUrl s Encoder)"
proof -
  from initialize_load_fails [OF assms] obtain m where
    m: "initialize env s =
           (Inl (Error m), s,
            FetchHead (getModelUrl s Encoder) # snd (chooseExecutionProviders env s)
            @ [CreateSession (getModelUrl s Encoder) (fst (chooseExecutionProviders env s)),
               CreateSession (getModelUrl s Decoder) (fst (chooseExecutionProviders env s))])"
    by blast
  from initialize_probes [OF assms(1,2), of env'] obtain rest where
    r: "snd (snd (initialize env' s)) = FetchHead (getModelUrl s Encoder) # rest" by blast
  show ?thesis using assms(1,2) by (simp add: m r)
qed

lemma fresh_flags:
  "\<not> isModelLoaded (new_SAM2Service c)" "\<not> isLoading (new_SAM2Service c)"
  "encoderSession (new_SAM2Service c) = None"
  by (simp_all add: new_SAM2Service_def)

text \<open>The witness of C1: a fresh service and model files that fail to load.\<close>

theorem initialize_failure_resets_witness:
  "isl (fst (initialize failing_env (new_SAM2Service default_config)))
   \<and> fst (snd (initialize failing_env (new_SAM2Service default_config)))
       = new_SAM2Service default_config
   \<and> \<not> isLoading (fst (snd (initialize failing_env (new_SAM2Service default_config))))
   \<and> hd (snd (snd (initialize absent_env
              (fst (snd (initialize failing_env (new_SAM2Service default_config)))))))
       = FetchHead (getModelUrl (new_SAM2Service default_config) Encoder)"
proof -
  have h: "headRequest failing_env (getModelUrl (new_SAM2Service default_config) Encoder)
             = Some True"
    by (simp add: failing_env_def)
  have f: "isl (createSession failing_env (getModelUrl (new_SAM2Service default_config) Encoder)
                 (fst (chooseExecutionProviders failing_env (new_SAM2Service default_config))))
         \<or> isl (createSession failing_env (getModelUrl (new_SAM2Service default_config) Decoder)
                 (fst (chooseExecutionProviders failing_env (new_SAM2Service default_config))))"
    by (simp add: failing_env_def)
  show ?thesis
    using initialize_failure_resets [OF fresh_flags(1) fresh_flags(2) h f, of absent_env]
    by blast
qed

text \<open>
  The counterexample to C1 as stated: after a failed load on a fresh service the flag
  \<^verbatim>\<open>isLoading\<close> is false, and a second \<^verbatim>\<open>initialize\<close> requests the model
  files and creates both sessions again.
\<close>

theorem initialize_stuck_counterexample:
  "\<not> isLoading (fst (snd (initialize failing_env (new_SAM2Service default_config))))
   \<and> snd (snd (initialize failing_env
              (fst (snd (initialize failing_env (new_SAM2Service default_config))))))
       = [FetchHead ''/models/sam2/sam2_hiera_tiny_encoder.onnx'',
          CreateSession ''/models/sam2/sam2_hiera_tiny_encoder.onnx'' [''wasm''],
          CreateSession ''/models/sam2/sam2_hiera_tiny_decoder.onnx'' [''wasm'']]"
  by (simp add: initialize_def initialize_try_def checkModelsAvailable_def
      chooseExecutionProviders_def loadEncoderModel_def loadDecoderModel_def
      promise_all2_def new_SAM2Service_def default_config_def failing_env_def getModelUrl_def)

text \<open>
  C8.  \<^verbatim>\<open>initialize\<close> on a service that is neither loaded nor loading and holds
  no encoder session, when the existence probe does not answer ok: the call succeeds,
  its only contact with the outside world is the probe (no session is created), the
  service is marked loaded, \<^verbatim>\<open>isReady\<close> is true, and \<^verbatim>\<open>encodeImage\<close>
  returns without an error, without running the encoder and without changing the
  service, so no embedding is cached.
\<close>

theorem demo_mode_ready:
  assumes "\<not> isModelLoaded s" "\<not> isLoading s" "encoderSession s = None"
    and "headRequest env (getModelUrl s Encoder) \<noteq> Some True"
  shows "initialize env s
           = (Inr (), s\<lparr>isModelLoaded := True\<rparr>, [FetchHead (getModelUrl s Encoder)])
       \<and> isReady (fst (snd (initialize env s)))
       \<and> encodeImage eenv imageData (fst (snd (initialize env s)))
           = (Inr (), fst (snd (initialize env s)), [])
       \<and> imageEmbeddings (fst (snd (initialize env s))) = imageEmbeddings s"
  using assms(3) by (simp add: initialize_absent [OF assms(1,2,4)] isReady_def encodeImage_def)

text \<open>The witness of C8: a fresh service and absent model files.\<close>

theorem demo_mode_ready_witness:
  "initialize absent_env (new_SAM2Service default_config)
     = (Inr (), (new_SAM2Service default_config)\<lparr>isModelLoaded := True\<rparr>,
        [FetchHead (getModelUrl (new_SAM2Service default_config) Encoder)])
   \<and> isReady (fst (snd (initialize absent_env (new_SAM2Service default_config))))
   \<and> encodeImage idle_encode_env blank_image
        (fst (snd (initialize absent_env (new_SAM2Service default_config))))
       = (Inr (), fst (snd (initialize absent_env (new_SAM2Service default_config))), [])"
proof -
  have h: "headRequest absent_env (getModelUrl (new_SAM2Service default_config) Encoder)
             \<noteq> Some True"
    by (simp add: absent_env_def)
  show ?thesis
    using demo_mode_ready [OF fresh_flags h, of idle_encode_env blank_image]
    by blast
qed

text \<open>
  C10.  On a loaded service \<^verbatim>\<open>updateConfig\<close> changes nothing, and a service that
  \<^verbatim>\<open>initialize\<close> has put into demo mode is such a service.  On a service that is
  not loaded, every key present in the new configuration replaces the stored value,
  every absent key keeps it, and no other field of the service changes.
\<close>

theorem updateConfig_frame:
  "(isModelLoaded s \<longrightarrow> updateConfig newConfig s = s)
   \<and> (\<not> isModelLoaded s \<longrightarrow>
        modelSize (config (updateConfig newConfig s))
          = (case p_modelSize newConfig of Some v \<Rightarrow> v | None \<Rightarrow> modelSize (config s))
        \<and> useWebGPU (config (updateConfig newConfig s))
          = (case p_useWebGPU newConfig of Some v \<Rightarrow> v | None \<Rightarrow> useWebGPU (config s))
        \<and> multimaskOutput (config (updateConfig newConfig s))
          = (case p_multimaskOutput newConfig of Some v \<Rightarrow> v
             | None \<Rightarrow> multimaskOutput (config s))
        \<and> updateConfig newConfig s = s\<lparr>config := config (updateConfig newConfig s)\<rparr>)
   \<and> (\<not> isModelLoaded s \<and> \<not> isLoading s
        \<and> headRequest env (getModelUrl s Encoder) \<noteq> Some True \<longrightarrow>
        updateConfig newConfig (fst (snd (initialize env s))) = fst (snd (initialize env s)))"
  by (auto simp: updateConfig_def spread_config_def initialize_absent)

text \<open>The witness of C10.\<close>

theorem updateConfig_frame_witness:
  "updateConfig \<lparr>p_modelSize = Some Large, p_useWebGPU = None, p_multimaskOutput = Some False\<rparr>
     ((new_SAM2Service default_config)\<lparr>isModelLoaded := True\<rparr>)
     = (new_SAM2Service default_config)\<lparr>isModelLoaded := True\<rparr>
   \<and> modelSize (config (updateConfig
        \<lparr>p_modelSize = Some Large, p_useWebGPU = None, p_multimaskOutput = Some False\<rparr>
        (new_SAM2Service default_config))) = Large
   \<and> useWebGPU (config (updateConfig
        \<lparr>p_modelSize = Some Large, p_useWebGPU = None, p_multimaskOutput = Some False\<rparr>
        (new_SAM2Service default_config))) = True
   \<and> updateConfig \<lparr>p_modelSize = Some Large, p_useWebGPU = None, p_multimaskOutput = Some False\<rparr>
       (fst (snd (initialize absent_env (new_SAM2Service default_config))))
     = fst (snd (initialize absent_env (new_SAM2Service default_config)))"
proof -
  let ?nc = "\<lparr>p_modelSize = Some Large, p_useWebGPU = None, p_multimaskOutput = Some False\<rparr>"
  have h: "headRequest absent_env (getModelUrl (new_SAM2Service default_config) Encoder)
             \<noteq> Some True"
    by (simp add: absent_env_def)
  have l: "isModelLoaded ((new_SAM2Service default_config)\<lparr>isModelLoaded := True\<rparr>)"
    by simp
  have d: "useWebGPU (config (new_SAM2Service default_config)) = True"
    by (simp add: new_SAM2Service_def default_config_def)
  show ?thesis
    using updateConfig_frame
            [of "(new_SAM2Service default_config)\<lparr>isModelLoaded := True\<rparr>" ?nc absent_env]
      updateConfig_frame [of "new_SAM2Service default_config" ?nc absent_env]
      fresh_flags(1,2) [of default_config] h l d
    by simp
qed

section \<open>Preprocessing\<close>

lemma preprocess_step_length [simp]:
  "length (preprocess_step pixels i input) = length input"
  by (simp add: preprocess_step_def Let_def)

lemma preprocess_fold_length [simp]:
  "length (fold (preprocess_step pixels) is input) = length input"
  by (induction "is" arbitrary: input) simp_all

text \<open>The loop invariant: after the rounds for the pixels below n.\<close>

lemma preprocess_fold_nth:
  assumes "n \<le> N" "N = targetSize * targetSize" "length input = 3 * N" "j < 3 * N"
  shows "fold (preprocess_step pixels) [0..<n] input ! j
           = (if j < n then real (unat (pixels ! (j * 4))) / 255
              else if N \<le> j \<and> j < N + n then real (unat (pixels ! ((j - N) * 4 + 1))) / 255
              else if 2 * N \<le> j \<and> j < 2 * N + n
                then real (unat (pixels ! ((j - 2 * N) * 4 + 2))) / 255
              else input ! j)"
  using assms(1)
proof (induction n)
  case 0
  then show ?case by simp
next
  case (Suc n)
  let ?a = "fold (preprocess_step pixels) [0..<n] input"
  have len: "length ?a = 3 * N" using assms(3) by simp
  have n: "n < N" using Suc.prems by simp
  have ih: "?a ! j
           = (if j < n then real (unat (pixels ! (j * 4))) / 255
              else if N \<le> j \<and> j < N + n then real (unat (pixels ! ((j - N) * 4 + 1))) / 255
              else if 2 * N \<le> j \<and> j < 2 * N + n
                then real (unat (pixels ! ((j - 2 * N) * 4 + 2))) / 255
              else input ! j)"
    using Suc.IH n by simp
  have step: "fold (preprocess_step pixels) [0..<Suc n] input
               = ?a[n := real (unat (pixels ! (n * 4))) / 255,
                    N + n := real (unat (pixels ! (n * 4 + 1))) / 255,
                    2 * N + n := real (unat (pixels ! (n * 4 + 2))) / 255]"
    by (simp add: preprocess_step_def assms(2) Let_def mult.assoc)
  show ?case
    unfolding step using n assms(4) len
    by (auto simp: nth_list_update ih)
qed

lemma byte_unit: "0 \<le> real (unat (b :: 8 word)) / 255 \<and> real (unat b) / 255 \<le> 1"
proof -
  have "unat b < 2 ^ 8" using unsigned_less [of b] by simp
  then have "unat b \<le> 255" by simp
  then have "real (unat b) \<le> real 255" by (simp only: of_nat_le_iff)
  moreover have "0 \<le> real (unat b)" by (rule of_nat_0_le_iff)
  ultimately show ?thesis by simp
qed

text \<open>
  C4.  Whatever image goes in, once the browser has resized it to 1024 by 1024 (so that
  \<^verbatim>\<open>getImageData\<close> yields 4 * 1024 * 1024 bytes), \<^verbatim>\<open>preprocessImage\<close> returns
  exactly 3 * 1024 * 1024 numbers, each between 0 and 1, laid out plane by plane: entry
  \<open>i\<close> is the red byte of pixel \<open>i\<close> divided by 255, entry \<open>1024 * 1024 + i\<close>
  its green byte divided by 255, entry \<open>2 * 1024 * 1024 + i\<close> its blue byte divided
  by 255.  The numbers are the exact quotients.
\<close>

theorem preprocessImage_layout:
  assumes "length (resize imageData) = 4 * targetSize * targetSize"
  shows "length (preprocessImage resize imageData) = 3 * 1024 * 1024
       \<and> (\<forall>j < 3 * 1024 * 1024.
             0 \<le> preprocessImage resize imageData ! j
             \<and> preprocessImage resize imageData ! j \<le> 1)
       \<and> (\<forall>i < 1024 * 1024.
             preprocessImage resize imageData ! i
               = real (unat (resize imageData ! (4 * i))) / 255
             \<and> preprocessImage resize imageData ! (1024 * 1024 + i)
               = real (unat (resize imageData ! (4 * i + 1))) / 255
             \<and> preprocessImage resize imageData ! (2 * 1024 * 1024 + i)
               = real (unat (resize imageData ! (4 * i + 2))) / 255)"
proof -
  define N where "N = targetSize * targetSize"
  define pixels where "pixels = resize imageData"
  define out where "out = preprocessImage resize imageData"
  have N: "N = 1024 * 1024" by (simp add: N_def targetSize_def)
  have out: "out = fold (preprocess_step pixels) [0..<N] (replicate (3 * N) 0)"
    by (simp add: out_def preprocessImage_def pixels_def N_def mult.assoc)
  have nth: "out ! j
           = (if j < N then real (unat (pixels ! (j * 4))) / 255
              else if N \<le> j \<and> j < N + N then real (unat (pixels ! ((j - N) * 4 + 1))) / 255
              else if 2 * N \<le> j \<and> j < 2 * N + N
                then real (unat (pixels ! ((j - 2 * N) * 4 + 2))) / 255
              else replicate (3 * N) 0 ! j)" if "j < 3 * N" for j
    unfolding out by (rule preprocess_fold_nth [OF _ N_def _ that]) simp_all
  have len: "length out = 3 * N" by (simp add: out)
  have range: "0 \<le> out ! j \<and> out ! j \<le> 1" if "j < 3 * N" for j
    using that byte_unit by (simp add: nth [OF that])
  have r: "out ! i = real (unat (pixels ! (4 * i))) / 255" if "i < N" for i
    using that nth [of i] by (simp add: mult.commute)
  have g: "out ! (N + i) = real (unat (pixels ! (4 * i + 1))) / 255" if "i < N" for i
    using that nth [of "N + i"] by (simp add: mult.commute)
  have b: "out ! (2 * N + i) = real (unat (pixels ! (4 * i + 2))) / 255" if "i < N" for i
    using that nth [of "2 * N + i"] by (simp add: mult.commute)
  show ?thesis
    using len range r g b unfolding N out_def pixels_def by simp
qed

text \<open>The witness of C4: a one-pixel image that is resized to a white image.\<close>

theorem preprocessImage_layout_witness:
  "length (preprocessImage white_resize blank_image) = 3 * 1024 * 1024
   \<and> preprocessImage white_resize blank_image ! 0 = 1
   \<and> preprocessImage white_resize blank_image ! (2 * 1024 * 1024 + 5) = 1"
proof -
  have h: "length (white_resize blank_image) = 4 * targetSize * targetSize"
    by (simp add: white_resize_def targetSize_def)
  note t = preprocessImage_layout [of white_resize blank_image, OF h]
  have len: "length (preprocessImage white_resize blank_image) = 3 * 1024 * 1024"
    using t by blast
  have "\<forall>i < 1024 * 1024.
          preprocessImage white_resize blank_image ! i
            = real (unat (white_resize blank_image ! (4 * i))) / 255
          \<and> preprocessImage white_resize blank_image ! (1024 * 1024 + i)
            = real (unat (white_resize blank_image ! (4 * i + 1))) / 255
          \<and> preprocessImage white_resize blank_image ! (2 * 1024 * 1024 + i)
            = real (unat (white_resize blank_image ! (4 * i + 2))) / 255"
    using t by blast
  then have a: "i < 1024 * 1024 \<Longrightarrow>
          preprocessImage white_resize blank_image ! i
            = real (unat (white_resize blank_image ! (4 * i))) / 255
          \<and> preprocessImage white_resize blank_image ! (1024 * 1024 + i)
            = real (unat (white_resize blank_image ! (4 * i + 1))) / 255
          \<and> preprocessImage white_resize blank_image ! (2 * 1024 * 1024 + i)
            = real (unat (white_resize blank_image ! (4 * i + 2))) / 255" for i
    by blast
  have i0: "(0 :: nat) < 1024 * 1024" and i5: "(5 :: nat) < 1024 * 1024" by simp_all
  have "preprocessImage white_resize blank_image ! 0 = 1"
    using a [OF i0] by (simp add: white_resize_def)
  moreover have "preprocessImage white_resize blank_image ! (2 * 1024 * 1024 + 5) = 1"
    using a [OF i5] by (simp add: white_resize_def)
  ultimately have "preprocessImage white_resize blank_image ! 0 = 1"
    and "preprocessImage white_resize blank_image ! (2 * 1024 * 1024 + 5) = 1"
    by simp_all
  with len show ?thesis by simp
qed

section \<open>The demo segmentation\<close>

lemma fold_invariant:
  "(\<And>x s. P s \<Longrightarrow> P (f x s)) \<Longrightarrow> P s \<Longrightarrow> P (fold f xs s)"
  by (induction xs arbitrary: s) simp_all

lemma binary_bytes_update: "binary_bytes n bs \<Longrightarrow> binary_bytes n (bs[i := 255])"
  by (auto simp: binary_bytes_def dest: set_update_subset_insert [THEN subsetD])

lemma binary_bytes_zeros: "binary_bytes n (replicate n 0)"
  by (simp add: binary_bytes_def)

lemma demo_pixel_binary:
  "binary_bytes n (fst st) \<Longrightarrow>
   binary_bytes n (fst (demo_pixel rnd w centerX centerY radius row col st))"
  by (cases st) (simp add: demo_pixel_def Let_def binary_bytes_update)

lemma demo_fill_binary:
  assumes "binary_bytes n (fst st)"
  shows "binary_bytes n (fst (demo_fill rnd w h centerX centerY radius st))"
  unfolding demo_fill_def
  by (rule fold_invariant [where P = "\<lambda>s. binary_bytes n (fst s)"],
      rule fold_invariant [where P = "\<lambda>s. binary_bytes n (fst s)"],
      rule demo_pixel_binary) (assumption, assumption, rule assms)

lemma demo_point_ok:
  assumes "\<And>k. Q (0.7 + rnd k * 0.25)" "demo_acc_ok Q st n"
  shows "demo_acc_ok Q (demo_point rnd imageData point st)
           (n + (if label point = Positive then 1 else 0))"
proof (cases st)
  case (fields ms ss k)
  show ?thesis
  proof (cases "label point = Positive")
    case False
    then show ?thesis using assms(2) by (simp add: demo_point_def fields)
  next
    case True
    let ?n = "img_width imageData * img_height imageData"
    let ?fill = "demo_fill rnd (img_width imageData) (img_height imageData)
                   \<lfloor>pt_x point\<rfloor> \<lfloor>pt_y point\<rfloor> ((100 + rnd k * 50) / 2)
                   (replicate ?n 0, Suc k)"
    obtain mask' k' where f: "?fill = (mask', k')" by (cases ?fill)
    have "binary_bytes ?n (fst ?fill)"
      by (rule demo_fill_binary) (simp add: binary_bytes_zeros)
    then have m: "binary_bytes ?n mask'" by (simp add: f)
    have "demo_point rnd imageData point st
            = (ms @ [\<lparr>data = mask', width = Some (img_width imageData),
                       height = Some (img_height imageData)\<rparr>],
               ss @ [0.7 + rnd k' * 0.25], Suc k')"
      using True f by (simp add: demo_point_def fields Let_def)
    then show ?thesis
      using assms(2) m assms(1) [of k'] True
      by (auto simp: demo_acc_ok_def fields binary_mask_def area_matches_def binary_bytes_def)
  qed
qed

lemma demo_fold_ok:
  assumes "\<And>k. Q (0.7 + rnd k * 0.25)"
  shows "demo_acc_ok Q st n \<Longrightarrow>
         demo_acc_ok Q (fold (demo_point rnd imageData) points st)
           (n + length (filter (\<lambda>p. label p = Positive) points))"
proof (induction points arbitrary: st n)
  case Nil
  then show ?case by simp
next
  case (Cons p ps)
  have "demo_acc_ok Q (demo_point rnd imageData p st)
          (n + (if label p = Positive then 1 else 0))"
    using assms Cons.prems by (rule demo_point_ok)
  then have "demo_acc_ok Q (fold (demo_point rnd imageData) ps (demo_point rnd imageData p st))
          (n + (if label p = Positive then 1 else 0)
             + length (filter (\<lambda>p. label p = Positive) ps))"
    by (rule Cons.IH)
  then show ?case by (cases "label p = Positive") simp_all
qed

lemma demo_result_ok:
  assumes "\<And>k. Q (0.7 + rnd k * 0.25)"
  shows "length (masks (createDemoSegmentation rnd points imageData))
           = length (filter (\<lambda>p. label p = Positive) points)
       \<and> length (scores (createDemoSegmentation rnd points imageData))
           = length (filter (\<lambda>p. label p = Positive) points)
       \<and> (\<forall>m \<in> set (masks (createDemoSegmentation rnd points imageData)). binary_mask m)
       \<and> (\<forall>sc \<in> set (scores (createDemoSegmentation rnd points imageData)). Q sc)"
proof -
  obtain ms ss k where f: "fold (demo_point rnd imageData) points ([], [], 0) = (ms, ss, k)"
    by (cases "fold (demo_point rnd imageData) points ([], [], 0)")
  have "demo_acc_ok Q ([], [], 0) 0" by (simp add: demo_acc_ok_def)
  with assms have "demo_acc_ok Q (fold (demo_point rnd imageData) points ([], [], 0))
                     (0 + length (filter (\<lambda>p. label p = Positive) points))"
    by (rule demo_fold_ok)
  then have ok: "demo_acc_ok Q (ms, ss, k) (length (filter (\<lambda>p. label p = Positive) points))"
    by (simp add: f)
  have r: "createDemoSegmentation rnd points imageData
             = \<lparr>masks = ms, scores = ss, processingTime = 50 + rnd k * 100\<rparr>"
    by (simp add: createDemoSegmentation_def f)
  show ?thesis using ok by (simp add: r demo_acc_ok_def)
qed

lemma score_range:
  "0 \<le> r \<and> r < 1 \<Longrightarrow> 0.7 \<le> 0.7 + r * 0.25 \<and> 0.7 + r * 0.25 \<le> (0.95 :: real)"
  by simp

text \<open>A run of the demo segmentation on a one-pixel image.\<close>

lemma demo_example:
  "createDemoSegmentation half_random example_points blank_image
     = \<lparr>masks = [\<lparr>data = [255], width = Some 1, height = Some 1\<rparr>], scores = [0.825],
        processingTime = 100\<rparr>"
  by (simp add: createDemoSegmentation_def demo_point_def demo_fill_def demo_pixel_def
      example_points_def blank_image_def half_random_def Let_def upt_rec)

text \<open>
  C5.  With \<^verbatim>\<open>Math.random()\<close> yielding numbers from 0 up to but excluding 1, the
  demo segmentation returns as many masks, and as many scores, as there are points
  labelled positive; when every point is labelled negative both lists are empty; and
  every score lies between 0.7 and 0.95.
\<close>

theorem demo_masks_per_positive_point:
  assumes "\<And>k. 0 \<le> rnd k \<and> rnd k < 1"
  shows "length (masks (createDemoSegmentation rnd points imageData))
           = length (filter (\<lambda>p. label p = Positive) points)
       \<and> length (scores (createDemoSegmentation rnd points imageData))
           = length (filter (\<lambda>p. label p = Positive) points)
       \<and> ((\<forall>p \<in> set points. label p = Negative) \<longrightarrow>
            masks (createDemoSegmentation rnd points imageData) = []
            \<and> scores (createDemoSegmentation rnd points imageData) = [])
       \<and> (\<forall>sc \<in> set (scores (createDemoSegmentation rnd points imageData)).
             0.7 \<le> sc \<and> sc \<le> 0.95)"
proof -
  have "0.7 \<le> 0.7 + rnd k * 0.25 \<and> 0.7 + rnd k * 0.25 \<le> 0.95" for k
    using assms [of k] by (rule score_range)
  from demo_result_ok [where Q = "\<lambda>sc. 0.7 \<le> sc \<and> sc \<le> 0.95", OF this]
  have r: "length (masks (createDemoSegmentation rnd points imageData))
           = length (filter (\<lambda>p. label p = Positive) points)
       \<and> length (scores (createDemoSegmentation rnd points imageData))
           = length (filter (\<lambda>p. label p = Positive) points)
       \<and> (\<forall>m \<in> set (masks (createDemoSegmentation rnd points imageData)). binary_mask m)
       \<and> (\<forall>sc \<in> set (scores (createDemoSegmentation rnd points imageData)).
             0.7 \<le> sc \<and> sc \<le> 0.95)" .
  have "filter (\<lambda>p. label p = Positive) points = []"
    if "\<forall>p \<in> set points. label p = Negative"
    using that by (auto simp: filter_empty_conv)
  with r show ?thesis by auto
qed

text \<open>The witness of C5: a positive and a negative point on a one-pixel image.\<close>

theorem demo_masks_per_positive_point_witness:
  "createDemoSegmentation half_random example_points blank_image
     = \<lparr>masks = [\<lparr>data = [255], width = Some 1, height = Some 1\<rparr>], scores = [0.825],
        processingTime = 100\<rparr>
   \<and> length (masks (createDemoSegmentation half_random example_points blank_image)) = 1
   \<and> length (scores (createDemoSegmentation half_random example_points blank_image)) = 1
   \<and> 0.7 \<le> hd (scores (createDemoSegmentation half_random example_points blank_image))
   \<and> hd (scores (createDemoSegmentation half_random example_points blank_image)) \<le> 0.95"
proof -
  have h: "0 \<le> half_random k \<and> half_random k < 1" for k
    by (simp add: half_random_def)
  have n: "length (filter (\<lambda>p. label p = Positive) example_points) = 1"
    by (simp add: example_points_def)
  note t = demo_masks_per_positive_point [of half_random example_points blank_image, OF h]
  have l: "length (scores (createDemoSegmentation half_random example_points blank_image)) = 1"
    using t n by simp
  then have "hd (scores (createDemoSegmentation half_random example_points blank_image))
               \<in> set (scores (createDemoSegmentation half_random example_points blank_image))"
    by (cases "scores (createDemoSegmentation half_random example_points blank_image)") simp_all
  then have "length (masks (createDemoSegmentation half_random example_points blank_image)) = 1
     \<and> length (scores (createDemoSegmentation half_random example_points blank_image)) = 1
     \<and> 0.7 \<le> hd (scores (createDemoSegmentation half_random example_points blank_image))
     \<and> hd (scores (createDemoSegmentation half_random example_points blank_image)) \<le> 0.95"
    using t n by auto
  with demo_example show ?thesis by blast
qed

section \<open>Segmentation results\<close>

lemma update_fold_length [simp]:
  "length (fold (\<lambda>j b. b[j := g j]) js a) = length a"
  by (induction js arbitrary: a) simp_all

lemma update_fold_nth:
  "n \<le> length a \<Longrightarrow> j < length a \<Longrightarrow>
   fold (\<lambda>j b. b[j := g j]) [0..<n] a ! j = (if j < n then g j else a ! j)"
  by (induction n) (auto simp: nth_list_update)

text \<open>The thresholding loop computes the threshold of every value.\<close>

lemma binarize_map:
  "binarize maskValues = map (\<lambda>v. if v > 0 then 255 else 0) maskValues"
  by (rule nth_equalityI) (simp_all add: binarize_def update_fold_nth)

lemma binarize_binary: "binary_bytes (length maskValues) (binarize maskValues)"
  by (auto simp: binarize_map binary_bytes_def)




lemma dim_at_four [simp]:
  "dim_at (batch # numMasks # h # w # rest) (Suc 0) = Some numMasks"
  "dim_at (batch # numMasks # h # w # rest) 2 = Some h"
  "dim_at (batch # numMasks # h # w # rest) 3 = Some w"
  by (simp_all add: dim_at_def numeral_2_eq_2 numeral_3_eq_3)







section \<open>Substrings\<close>

text \<open>\<open>str_includes s sub\<close> holds exactly when \<open>sub\<close> occurs in \<open>s\<close>.\<close>

lemma startsWith_iff: "startsWith s sub \<longleftrightarrow> (\<exists>post. s = sub @ post)"
  by (induction s sub rule: startsWith.induct) auto

lemma str_includes_iff: "str_includes s sub \<longleftrightarrow> (\<exists>pre post. s = pre @ sub @ post)"
proof (induction s)
  case Nil
  then show ?case by auto
next
  case (Cons c cs)
  show ?case
  proof
    assume "str_includes (c # cs) sub"
    then consider "startsWith (c # cs) sub" | "str_includes cs sub" by auto
    then show "\<exists>pre post. c # cs = pre @ sub @ post"
    proof cases
      case 1
      then obtain post where "c # cs = sub @ post" by (auto simp: startsWith_iff)
      then have "c # cs = [] @ sub @ post" by simp
      then show ?thesis by blast
    next
      case 2
      then obtain pre post where "cs = pre @ sub @ post" using Cons.IH by blast
      then have "c # cs = (c # pre) @ sub @ post" by simp
      then show ?thesis by blast
    qed
  next
    assume "\<exists>pre post. c # cs = pre @ sub @ post"
    then obtain pre post where p: "c # cs = pre @ sub @ post" by blast
    show "str_includes (c # cs) sub"
    proof (cases pre)
      case Nil
      then have "startsWith (c # cs) sub" using p by (auto simp: startsWith_iff)
      then show ?thesis by simp
    next
      case (Cons a pre')
      then have "cs = pre' @ sub @ post" using p by simp
      then have "str_includes cs sub" using Cons.IH by blast
      then show ?thesis by simp
    qed
  qed
qed
section \<open>The confidence threshold\<close>

lemma assign_urgency_keeps [simp]:
  "res_detected (assign_urgency target r) = res_detected r"
  "res_confidence (assign_urgency target r) = res_confidence r"
  by (simp_all add: assign_urgency_def Let_def)

lemma assign_action_keeps [simp]:
  "res_detected (assign_action target r) = res_detected r"
  "res_confidence (assign_action target r) = res_confidence r"
  by (simp_all add: assign_action_def Let_def)

lemma apply_threshold_detected:
  "fr_detected (apply_threshold target r)
     = (res_detected r \<and> \<not> res_confidence r < confidence target)"
  "fr_confidence (apply_threshold target r) = res_confidence r"
  "originalDetected (apply_threshold target r) = res_detected r"
  by (simp_all add: apply_threshold_def Let_def)

lemma startsWith_nonempty: "startsWith k ''sk-'' \<Longrightarrow> k \<noteq> []"
  by (cases k) simp_all

text \<open>
  Every ok answer of the route respects the threshold of the target it was asked about,
  whether the answer of the vision model was parsed or the keyword fallback was used.
\<close>

lemma interpret_content_threshold:
  assumes "interpret_content env target complex content = OkResponse fr"
    and "fr_confidence fr < confidence target"
  shows "\<not> fr_detected fr"
  using assms
  by (auto simp: interpret_content_def apply_threshold_detected split: parsed.splits)

lemma detect_route_threshold:
  assumes "detect_route env req = OkResponse fr" "req_target req = Some target"
    and "fr_confidence fr < confidence target"
  shows "\<not> fr_detected fr"
  using assms interpret_content_threshold
  by (auto simp: detect_route_def split: option.splits if_splits sum.splits)

text \<open>
  C2.  The route has received a frame and a target, holds a well-formed API key and
  got a non-empty answer from the vision model that parses to an object whose
  \<^verbatim>\<open>confidence\<close> is a number \<open>c\<close> strictly below the confidence of the
  target.  Then it answers with status ok, \<^verbatim>\<open>detected\<close> false and confidence
  \<open>c\<close>, whatever boolean the model returned (\<open>originalDetected\<close> keeps it), and
  \<^verbatim>\<open>captureFrame\<close> hands \<^verbatim>\<open>onDetection\<close> exactly one alert, with
  \<^verbatim>\<open>detected\<close> false.
\<close>

theorem confidence_threshold_enforced:
  assumes "req_image req = Some img" "img \<noteq> []" "req_target req = Some target"
    and "apiKey env = Some k" "startsWith k ''sk-''"
    and "completion env = Inr (Some content)" "content \<noteq> []"
    and "jsonParse env (case jsonMatch content of Some m \<Rightarrow> m | None \<Rightarrow> content)
           = ParsedObject r"
    and "mr_confidence r = JNum c" "c < confidence target"
  shows "(\<exists>fr. detect_route env req = OkResponse fr
            \<and> \<not> fr_detected fr \<and> fr_confidence fr = c
            \<and> originalDetected fr = (mr_detected r = JBool True))
       \<and> captureFrame_finish t target img (Inr (detect_route env req)) st
           = (st\<lparr>processingFrame := False\<rparr>,
              [\<lparr>alert_time = t, alert_detected = False, alert_confidence = c,
                alert_image = img, alert_message = NoDetection\<rparr>])"
proof -
  let ?fr = "apply_threshold target
               (assign_action target (assign_urgency target (validate_result r)))"
  have k: "k \<noteq> []" using assms(5) by (rule startsWith_nonempty)
  have route: "detect_route env req = OkResponse ?fr"
    using assms(1-8) k by (simp add: detect_route_def interpret_content_def)
  have conf: "res_confidence (validate_result r) = c"
    using assms(9) by (simp add: validate_result_def)
  have det: "res_detected (validate_result r) = (mr_detected r = JBool True)"
    by (cases "mr_detected r") (auto simp: validate_result_def)
  have fr: "\<not> fr_detected ?fr" "fr_confidence ?fr = c"
    "originalDetected ?fr = (mr_detected r = JBool True)"
    using assms(10) by (simp_all add: apply_threshold_detected conf det)
  show ?thesis
    using fr by (simp add: route captureFrame_finish_def)
qed

text \<open>
  The witness of C2: the model answers \<^verbatim>\<open>{detected: true, confidence: 0.5}\<close> for a
  target of confidence 0.7.
\<close>

theorem confidence_threshold_enforced_witness:
  "(\<exists>fr. detect_route example_route_env example_request = OkResponse fr
          \<and> \<not> fr_detected fr \<and> fr_confidence fr = 0.5
          \<and> originalDetected fr = (mr_detected upstream_example = JBool True))
   \<and> captureFrame_finish 0 dog_target ''frame-1''
        (Inr (detect_route example_route_env example_request)) initial_CameraFeed
       = (initial_CameraFeed\<lparr>processingFrame := False\<rparr>,
          [\<lparr>alert_time = 0, alert_detected = False, alert_confidence = 0.5,
            alert_image = ''frame-1'', alert_message = NoDetection\<rparr>])"
proof -
  have "req_image example_request = Some ''frame-1''" "''frame-1'' \<noteq> []"
    "req_target example_request = Some dog_target"
    "apiKey example_route_env = Some ''sk-test''" "startsWith ''sk-test'' ''sk-''"
    \<open>completion example_route_env = Inr (Some ''{"detected": true, "confidence": 0.5}'')\<close>
    \<open>''{"detected": true, "confidence": 0.5}'' \<noteq> []\<close>
    \<open>jsonParse example_route_env
       (case jsonMatch ''{"detected": true, "confidence": 0.5}'' of Some m \<Rightarrow> m
        | None \<Rightarrow> ''{"detected": true, "confidence": 0.5}'') = ParsedObject upstream_example\<close>
    "mr_confidence upstream_example = JNum 0.5" "0.5 < confidence dog_target"
    by (simp_all add: example_request_def example_route_env_def upstream_example_def
        dog_target_def)
  from confidence_threshold_enforced [OF this, of 0 initial_CameraFeed]
  show ?thesis .
qed

section \<open>The motion gate\<close>

lemma fold_count_none:
  "(\<And>i. i \<in> set xs \<Longrightarrow> \<not> P i) \<Longrightarrow>
   fold (\<lambda>i (n::nat). if P i then n + 1 else n) xs a = a"
  by (induction xs arbitrary: a) simp_all

lemma pixel_diff_same [simp]: "pixel_diff d d i = 0"
  by (simp add: pixel_diff_def)

lemma count_diff_same [simp]: "count_diff d d = 0"
  unfolding count_diff_def by (rule fold_count_none) simp

lemma detectMotion_identical:
  assumes "lastFrame st = Some lf" "motionDetection st" "context2d env"
    and "render env lf = Rendered d" "render env cur = Rendered d"
  shows "detectMotion env st cur
           = Some \<lparr>hasMotion = (0 > motionThreshold st * 100), changePercent = 0\<rparr>"
  using assms by (simp add: detectMotion_def)

text \<open>A frame that never loads leaves \<^verbatim>\<open>detectMotion\<close>, and the capture, pending.\<close>

lemma detectMotion_never_settles:
  assumes "lastFrame st = Some lf" "motionDetection st" "context2d env"
    and "render env lf = NeverLoads \<or> render env cur = NeverLoads"
  shows "detectMotion env st cur = None"
  using assms by (auto simp: detectMotion_def)

lemma captureFrame_never_settles:
  assumes "\<not> processingFrame st" "grabFrame env = Some cur"
    and "lastFrame st = Some lf" "motionDetection st" "context2d env"
    and "render env lf = NeverLoads \<or> render env cur = NeverLoads"
  shows "captureFrame_begin env (Some target) st
           = (st\<lparr>lastCapturedImage := Some cur,
                 frameBuffer := last3 (frameBuffer st @ [cur])\<rparr>,
              NeverSettles)"
  using assms(1-4) detectMotion_never_settles [OF assms(3-6)]
  by (simp add: captureFrame_begin_def Let_def)

lemma fold_count_all:
  "(\<And>i. i \<in> set xs \<Longrightarrow> P i) \<Longrightarrow>
   fold (\<lambda>i (n::nat). if P i then n + 1 else n) xs a = a + length xs"
  by (induction xs arbitrary: a) simp_all

lemma count_diff_replicate:
  assumes "n mod 4 = 0" "3 * \<bar>uint a - uint b\<bar> > 30"
  shows "count_diff (replicate n a) (replicate n b) = n div 4"
proof -
  have "pixel_diff (replicate n a) (replicate n b) i > 30"
    if "i \<in> set (map (\<lambda>k. 4 * k) [0..<(n + 3) div 4])" for i
  proof -
    from that obtain k where k: "i = 4 * k" "k < (n + 3) div 4" by auto
    with assms(1) have "i + 2 < n" by presburger
    then show ?thesis using assms(2) by (simp add: pixel_diff_def)
  qed
  then have "count_diff (replicate n a) (replicate n b)
               = 0 + length (map (\<lambda>k. 4 * k) [0..<(n + 3) div 4])"
    unfolding count_diff_def length_replicate by (rule fold_count_all)
  also have "\<dots> = n div 4" using assms(1) by simp presburger
  finally show ?thesis .
qed

text \<open>
  C6.  A capture that takes a frame (there is a target, no detection is in progress,
  the input yields a frame) with motion detection on and a previous frame, where the
  current and the previous frame load and give the same 160 by 120 pixels: the computed
  \<^verbatim>\<open>changePercent\<close> is 0, and when \<^verbatim>\<open>motionThreshold\<close> is positive the capture
  ends without a detection call, having recorded the frame as the last frame and the
  time as the last capture.
\<close>

theorem identical_frames_skip_detection:
  assumes "wt = Some target" "\<not> processingFrame st" "grabFrame env = Some cur"
    and "motionDetection st" "lastFrame st = Some lf" "context2d env"
    and "render env lf = Rendered d" "render env cur = Rendered d"
    and "length d = 4 * 160 * 120"
  shows "map_option changePercent (detectMotion env st cur) = Some 0
       \<and> (motionThreshold st > 0 \<longrightarrow>
            captureFrame_begin env wt st
              = (st\<lparr>lastCapturedImage := Some cur,
                    frameBuffer := last3 (frameBuffer st @ [cur]),
                    lastCapture := Some (now env),
                    lastFrame := Some cur\<rparr>,
                 SkippedNoMotion \<lparr>hasMotion = False, changePercent = 0\<rparr>))"
  using assms
  by (simp add: detectMotion_identical captureFrame_begin_def Let_def)

text \<open>The witness of C6: a still scene under the default threshold 0.15.\<close>

theorem identical_frames_skip_detection_witness:
  "map_option changePercent (detectMotion (still_env ''frame-2'')
       (initial_CameraFeed\<lparr>lastFrame := Some ''frame-1''\<rparr>) ''frame-2'') = Some 0
   \<and> (motionThreshold (initial_CameraFeed\<lparr>lastFrame := Some ''frame-1''\<rparr>) > 0 \<and>
        captureFrame_begin (still_env ''frame-2'') (Some dog_target)
            (initial_CameraFeed\<lparr>lastFrame := Some ''frame-1''\<rparr>)
          = (initial_CameraFeed
               \<lparr>lastFrame := Some ''frame-1'', lastCapturedImage := Some ''frame-2'',
                frameBuffer := last3 (frameBuffer (initial_CameraFeed\<lparr>lastFrame := Some ''frame-1''\<rparr>)
                                      @ [''frame-2'']),
                lastCapture := Some (now (still_env ''frame-2'')),
                lastFrame := Some ''frame-2''\<rparr>,
             SkippedNoMotion \<lparr>hasMotion = False, changePercent = 0\<rparr>))"
proof -
  let ?st = "initial_CameraFeed\<lparr>lastFrame := Some ''frame-1''\<rparr>"
  let ?env = "still_env ''frame-2''"
  have h: "Some dog_target = Some dog_target" "\<not> processingFrame ?st"
    "grabFrame ?env = Some ''frame-2''" "motionDetection ?st"
    "lastFrame ?st = Some ''frame-1''" "context2d ?env"
    "render ?env ''frame-1'' = Rendered (replicate (4 * 160 * 120) 0)"
    "render ?env ''frame-2'' = Rendered (replicate (4 * 160 * 120) 0)"
    "length (replicate (4 * 160 * 120) (0 :: 8 word)) = 4 * 160 * 120"
    by (simp_all add: initial_CameraFeed_def still_env_def)
  have t: "motionThreshold ?st > 0" by (simp add: initial_CameraFeed_def)
  show ?thesis
    using identical_frames_skip_detection [OF h] t by simp
qed

section \<open>Complex actions\<close>

lemma last3_short: "length xs \<le> 3 \<Longrightarrow> last3 xs = xs"
  by (simp add: last3_def)

lemma first_capture_waits:
  assumes "str_includes (description target) ''falling''"
    and "frameBuffer st = []" "lastFrame st = None" "\<not> processingFrame st"
    and "grabFrame env1 = Some f1"
  shows "captureFrame_begin env1 (Some target) st
           = (st\<lparr>lastCapturedImage := Some f1, frameBuffer := [f1],
                 lastCapture := Some (now env1), lastFrame := Some f1\<rparr>,
              WaitingForFrames)"
  using assms
  by (simp add: captureFrame_begin_def Let_def isComplexAction_def last3_short)

text \<open>
  C7, as the code has it.  The description of the target contains "falling" and the
  session is fresh (empty frame buffer, no last frame, no detection in progress).  The
  first capture sends no detection request and leaves one frame in the buffer.  The
  second capture, with two frames buffered, sends the request with both frames exactly
  when the motion gate lets it pass, that is when motion detection is off or
  \<^verbatim>\<open>detectMotion\<close> reports motion between the two frames; when it reports no
  motion the capture is skipped for lack of motion, and when it never reports (a frame
  that never loads) the capture stays pending and sends nothing.
\<close>

theorem complex_action_gating:
  assumes "str_includes (description target) ''falling''"
    and "frameBuffer st = []" "lastFrame st = None" "\<not> processingFrame st"
    and "grabFrame env1 = Some f1" "grabFrame env2 = Some f2"
    and "st1 = fst (captureFrame_begin env1 (Some target) st)"
    and "gate = (if motionDetection st then detectMotion env2 st1 f2
                 else Some \<lparr>hasMotion = True, changePercent = 100\<rparr>)"
  shows "snd (captureFrame_begin env1 (Some target) st) = WaitingForFrames
       \<and> frameBuffer st1 = [f1]
       \<and> (\<forall>md. gate = Some md \<and> hasMotion md \<longrightarrow>
            snd (captureFrame_begin env2 (Some target) st1)
              = Dispatched
                  \<lparr>req_image = Some f2, req_frames = [f1, f2], req_target = Some target,
                   req_isComplexAction = True, req_motionData = md,
                   req_prompt = MultiFramePrompt 2 (description target) (confidence target)\<rparr>)
       \<and> (\<forall>md. gate = Some md \<and> \<not> hasMotion md \<longrightarrow>
            snd (captureFrame_begin env2 (Some target) st1) = SkippedNoMotion md)
       \<and> (gate = None \<longrightarrow>
            snd (captureFrame_begin env2 (Some target) st1) = NeverSettles)"
proof -
  have st1: "st1 = st\<lparr>lastCapturedImage := Some f1, frameBuffer := [f1],
                      lastCapture := Some (now env1), lastFrame := Some f1\<rparr>"
    using first_capture_waits [OF assms(1-5)] assms(7) by simp
  have c: "isComplexAction (description target)"
    using assms(1) by (simp add: isComplexAction_def)
  have flags: "\<not> processingFrame st1" "frameBuffer st1 = [f1]"
    "lastFrame st1 = Some f1" "motionDetection st1 = motionDetection st"
    using assms(4) by (simp_all add: st1)
  have second: "snd (captureFrame_begin env2 (Some target) st1)
      = (case gate of
           None \<Rightarrow> NeverSettles
         | Some md \<Rightarrow>
             if hasMotion md
             then Dispatched
                    \<lparr>req_image = Some f2, req_frames = [f1, f2], req_target = Some target,
                     req_isComplexAction = True, req_motionData = md,
                     req_prompt =
                       MultiFramePrompt 2 (description target) (confidence target)\<rparr>
             else SkippedNoMotion md)"
  proof (cases "motionDetection st")
    case True
    then have "detectMotion env2 st1 f2 = gate" using assms(8) by simp
    then show ?thesis
      using assms(6) c flags True
      by (simp add: captureFrame_begin_def Let_def last3_short createComplexPrompt_def
          split: option.splits)
  next
    case False
    then have "gate = Some \<lparr>hasMotion = True, changePercent = 100\<rparr>"
      using assms(8) by simp
    then show ?thesis
      using assms(6) c flags False
      by (simp add: captureFrame_begin_def Let_def last3_short createComplexPrompt_def)
  qed
  have first: "snd (captureFrame_begin env1 (Some target) st) = WaitingForFrames"
    by (simp add: first_capture_waits [OF assms(1-5)])
  show ?thesis
    using first flags(2) by (auto simp: second)
qed

text \<open>
  The witness of C7: a black frame followed by a white frame under the default settings.
\<close>

theorem complex_action_gating_witness:
  "snd (captureFrame_begin (moving_env ''frame-1'') (Some fall_target) initial_CameraFeed)
     = WaitingForFrames
   \<and> snd (captureFrame_begin (moving_env ''frame-2'') (Some fall_target)
            (fst (captureFrame_begin (moving_env ''frame-1'') (Some fall_target)
                    initial_CameraFeed)))
     = Dispatched
         \<lparr>req_image = Some ''frame-2'', req_frames = [''frame-1'', ''frame-2''],
          req_target = Some fall_target, req_isComplexAction = True,
          req_motionData = \<lparr>hasMotion = True, changePercent = 100\<rparr>,
          req_prompt = MultiFramePrompt 2 (description fall_target) (confidence fall_target)\<rparr>"
proof -
  let ?st1 = "fst (captureFrame_begin (moving_env ''frame-1'') (Some fall_target)
                     initial_CameraFeed)"
  have h: "str_includes (description fall_target) ''falling''"
    "frameBuffer initial_CameraFeed = []" "lastFrame initial_CameraFeed = None"
    "\<not> processingFrame initial_CameraFeed"
    "grabFrame (moving_env ''frame-1'') = Some ''frame-1''"
    "grabFrame (moving_env ''frame-2'') = Some ''frame-2''"
    by (simp_all add: fall_target_def initial_CameraFeed_def moving_env_def)
  have st1: "?st1 = initial_CameraFeed
                 \<lparr>lastCapturedImage := Some ''frame-1'', frameBuffer := [''frame-1''],
                  lastCapture := Some (now (moving_env ''frame-1'')),
                  lastFrame := Some ''frame-1''\<rparr>"
    by (simp add: first_capture_waits [OF h(1-5)])
  have cd: "count_diff (replicate 76800 (0 :: 8 word)) (replicate 76800 255) = 19200"
    using count_diff_replicate [of 76800 "0 :: 8 word" 255] by simp
  have md: "detectMotion (moving_env ''frame-2'') ?st1 ''frame-2''
              = Some \<lparr>hasMotion = True, changePercent = 100\<rparr>"
    unfolding st1
    by (simp add: detectMotion_def moving_env_def initial_CameraFeed_def cd)
  have m: "motionDetection initial_CameraFeed" by (simp add: initial_CameraFeed_def)
  have g: "Some \<lparr>hasMotion = True, changePercent = 100\<rparr>
             = (if motionDetection initial_CameraFeed
                then detectMotion (moving_env ''frame-2'') ?st1 ''frame-2''
                else Some \<lparr>hasMotion = True, changePercent = 100\<rparr>)"
    using md m by simp
  show ?thesis
    using complex_action_gating [OF h refl g] by simp
qed

text \<open>
  The counterexample to C7 as stated: under the default settings (motion detection on,
  threshold 0.15) the second capture of a still scene has two frames buffered and is
  skipped by the motion gate, so no detection call is made.
\<close>

theorem second_capture_counterexample:
  "frameBuffer (fst (captureFrame_begin (still_env ''frame-2'') (Some fall_target)
            (fst (captureFrame_begin (still_env ''frame-1'') (Some fall_target)
                    initial_CameraFeed))))
     = [''frame-1'', ''frame-2'']
   \<and> snd (captureFrame_begin (still_env ''frame-2'') (Some fall_target)
            (fst (captureFrame_begin (still_env ''frame-1'') (Some fall_target)
                    initial_CameraFeed)))
     = SkippedNoMotion \<lparr>hasMotion = False, changePercent = 0\<rparr>"
proof -
  let ?st1 = "fst (captureFrame_begin (still_env ''frame-1'') (Some fall_target)
                     initial_CameraFeed)"
  have h: "str_includes (description fall_target) ''falling''"
    "frameBuffer initial_CameraFeed = []" "lastFrame initial_CameraFeed = None"
    "\<not> processingFrame initial_CameraFeed"
    "grabFrame (still_env ''frame-1'') = Some ''frame-1''"
    by (simp_all add: fall_target_def initial_CameraFeed_def still_env_def)
  have st1: "?st1 = initial_CameraFeed
                 \<lparr>lastCapturedImage := Some ''frame-1'', frameBuffer := [''frame-1''],
                  lastCapture := Some (now (still_env ''frame-1'')),
                  lastFrame := Some ''frame-1''\<rparr>"
    by (simp add: first_capture_waits [OF h])
  have md: "detectMotion (still_env ''frame-2'') ?st1 ''frame-2''
              = Some \<lparr>hasMotion = False, changePercent = 0\<rparr>"
    unfolding st1
    by (simp add: detectMotion_identical [where lf = "''frame-1''"
          and d = "replicate (4 * 160 * 120) 0"] still_env_def initial_CameraFeed_def)
  show ?thesis
    using md unfolding st1
    by (simp add: captureFrame_begin_def Let_def last3_short still_env_def
        initial_CameraFeed_def)
qed

section \<open>Stopping the monitoring\<close>

text \<open>
  C3, as the code has it.  A detection call is in flight and monitoring is stopped.
  The interval is cleared at once, so a later tick of the timer captures nothing.  When
  the call in flight then settles with an ok response, its result is handed to
  \<^verbatim>\<open>onDetection\<close> all the same: nothing in \<^verbatim>\<open>captureFrame\<close> looks at
  \<^verbatim>\<open>isMonitoring\<close> after the response has arrived.
\<close>

theorem stop_cancels_timer_only:
  assumes "inFlight m = Some (target, img)"
    and "m' = monitor_step (SetMonitoring False) m"
  shows "\<not> intervalRunning m'
       \<and> monitor_step (Tick env) m' = m'
       \<and> delivered (monitor_step (Settle t (Inr (OkResponse result))) m')
           = delivered m
             @ [\<lparr>alert_time = t, alert_detected = fr_detected result,
                 alert_confidence = fr_confidence result, alert_image = img,
                 alert_message =
                   (if fr_detected result
                    then DetectedMessage (description target) (fr_confidence result)
                    else NoDetection)\<rparr>]"
  using assms by (simp add: monitor_step_def captureFrame_finish_def)

text \<open>The witness of C3: monitoring starts, one frame is sent, monitoring stops.\<close>

theorem stop_cancels_timer_only_witness:
  "\<not> intervalRunning (monitor_step (SetMonitoring False)
        (run_events [SetMonitoring True, Tick (still_env ''frame-1'')] idle_monitor))
   \<and> monitor_step (Tick (still_env ''frame-2''))
        (monitor_step (SetMonitoring False)
           (run_events [SetMonitoring True, Tick (still_env ''frame-1'')] idle_monitor))
       = monitor_step (SetMonitoring False)
           (run_events [SetMonitoring True, Tick (still_env ''frame-1'')] idle_monitor)"
proof -
  have "inFlight (run_events [SetMonitoring True, Tick (still_env ''frame-1'')] idle_monitor)
          = Some (dog_target, ''frame-1'')"
    by (simp add: monitor_step_def idle_monitor_def captureFrame_begin_def Let_def
        initial_CameraFeed_def still_env_def isComplexAction_def dog_target_def last3_def)
  from stop_cancels_timer_only [OF this refl, of "still_env ''frame-2''"]
  show ?thesis by blast
qed

text \<open>
  The counterexample to C3 as stated: monitoring starts, the first tick sends a
  detection request, monitoring is stopped, then the response arrives and
  \<^verbatim>\<open>onDetection\<close> receives its alert.
\<close>

theorem stale_alert_counterexample:
  "inFlight (run_events [SetMonitoring True, Tick (still_env ''frame-1'')] idle_monitor)
     = Some (dog_target, ''frame-1'')
   \<and> delivered
       (run_events
          [SetMonitoring True, Tick (still_env ''frame-1''), SetMonitoring False,
           Settle 5 (Inr (OkResponse example_final))] idle_monitor)
     = [\<lparr>alert_time = 5, alert_detected = True, alert_confidence = 0.9,
         alert_image = ''frame-1'',
         alert_message = DetectedMessage ''dog leaving house'' 0.9\<rparr>]"
  by (simp add: monitor_step_def idle_monitor_def captureFrame_begin_def Let_def
      initial_CameraFeed_def still_env_def isComplexAction_def dog_target_def last3_def
      captureFrame_finish_def example_final_def)

end
